theory Spec2Isabelle
  imports Main "HOL-Library.Sublist"
begin

section \<open>Values shared by the two front ends\<close>

text \<open>
  The repository has two front ends over SciPy's \<^verbatim>\<open>linprog\<close>: the command-line class
  \<^verbatim>\<open>LPSolverCLI\<close> (lp_solver_cli.py) and the Tk form \<^verbatim>\<open>LinearProgrammingInterface\<close>
  (linear_programming_interface.py). Both turn what the user typed into the arrays
  \<^verbatim>\<open>c, A_ub, b_ub, A_eq, b_eq\<close>, call the solver, and render its result.

  Numbers are Python floats. Every operation the code itself performs on them is a unary
  minus, so the model is polymorphic in the number type \<open>'a\<close>, of which only a
  negation is required. The library functions \<^verbatim>\<open>float\<close>, \<^verbatim>\<open>int\<close> and
  \<^verbatim>\<open>linprog\<close> are parameters of the model: \<open>None\<close> from a parser is Python's
  \<^verbatim>\<open>ValueError\<close>, \<open>Inl e\<close> from the solver is an exception raised by it.
\<close>

datatype exn =
    ValueError | IndexError | TypeError | EOFError | JSONDecodeError | FileNotFoundError

text \<open>
  Output is kept as the pieces the f-strings are built from, not as rendered text:
  \<open>Float6 v\<close> is \<^verbatim>\<open>{v:.6f}\<close>, \<open>Num n\<close> an integer, \<open>Exc e\<close> the text of a
  caught exception, \<open>Title s\<close> is \<^verbatim>\<open>s.title()\<close>, and \<open>AllNonNeg xs\<close> the value of
  \<^verbatim>\<open>all(x >= -1e-10 for x in xs)\<close>.
\<close>

datatype 'a piece =
    Str string | Float6 'a | Num int | Exc exn | Title string | AllNonNeg "'a list"

type_synonym 'a line = "'a piece list"

text \<open>The five arrays of the canonical form; \<open>None\<close> is Python's \<^verbatim>\<open>None\<close>.\<close>

record 'a lp_arrays =
  c :: "'a list"
  A_ub :: "'a list list option"
  b_ub :: "'a list option"
  A_eq :: "'a list list option"
  b_eq :: "'a list option"

text \<open>The keyword arguments of the \<^verbatim>\<open>linprog\<close> call (\<^verbatim>\<open>method='highs'\<close> is constant).\<close>

record 'a linprog_args = "'a lp_arrays" +
  bounds :: "(int \<times> int option) list"

text \<open>
  The fields of SciPy's \<^verbatim>\<open>OptimizeResult\<close> that the code reads. With HiGHS,
  \<^verbatim>\<open>fun\<close> and \<^verbatim>\<open>x\<close> are \<^verbatim>\<open>None\<close> when no solution was found.
\<close>

record 'a opt_result =
  success :: bool
  message :: string
  nit :: int
  result_fun :: "'a option"
  result_x :: "'a list option"

type_synonym 'a solver = "'a linprog_args \<Rightarrow> exn + 'a opt_result"

text \<open>What a run does besides changing its own state: solver calls, prints, dialogs.\<close>

datatype 'a event =
    Linprog "'a linprog_args"
  | Print "'a line"
  | Showerror "'a line"
  | Showinfo "'a line"
  | Showwarning "'a line"

text \<open>\<^verbatim>\<open>xs[i]\<close> for \<open>i \<ge> 0\<close>: Python raises \<^verbatim>\<open>IndexError\<close> past the end.\<close>

definition index :: "'b list \<Rightarrow> nat \<Rightarrow> exn + 'b" where
  "index xs i = (if i < length xs then Inr (xs ! i) else Inl IndexError)"

text \<open>\<^verbatim>\<open>np.array(A) if A else None\<close>: an empty list is falsy.\<close>

definition array_or_None :: "'b list \<Rightarrow> 'b list option" where
  "array_or_None xs = (if xs = [] then None else Some xs)"

text \<open>
  The four lists \<^verbatim>\<open>A_ub, b_ub, A_eq, b_eq\<close> under construction, and the
  \<^verbatim>\<open>if / elif / else\<close> that files one constraint (lp_solver_cli.py lines 59-67,
  linear_programming_interface.py lines 246-254; the two are the same statement).
\<close>

type_synonym 'a rows = "'a list list \<times> 'a list \<times> 'a list list \<times> 'a list"

definition add_constraint :: "'a::uminus rows \<Rightarrow> 'a list \<Rightarrow> string \<Rightarrow> 'a \<Rightarrow> 'a rows" where
  "add_constraint acc constraint_row constraint_type bound_value =
     (case acc of (Aub, bub, Aeq, beq) \<Rightarrow>
        if constraint_type = ''<='' then
          (Aub @ [constraint_row], bub @ [bound_value], Aeq, beq)
        else if constraint_type = ''>='' then
          (Aub @ [map uminus constraint_row], bub @ [- bound_value], Aeq, beq)
        else
          (Aub, bub, Aeq @ [constraint_row], beq @ [bound_value]))"

section \<open>The Tk form\<close>

text \<open>
  The widgets that hold the problem, and the three output widgets. An \<^verbatim>\<open>IntVar\<close> is
  its integer, an entry or combobox its text.
\<close>

record 'a gui_state =
  num_variables :: int
  num_constraints :: int
  objective_type :: string
  obj_entries :: "string list"
  constraint_entries :: "string list list"
  type_combos :: "string list"
  bound_entries :: "string list"
  results_text :: "'a line"
  optimal_value_label :: "'a line"
  status_label :: "'a line"

text \<open>\<^verbatim>\<open>for entry in self.obj_entries: c.append(float(entry.get()))\<close>\<close>

fun read_entries :: "(string \<Rightarrow> 'a option) \<Rightarrow> string list \<Rightarrow> exn + 'a list" where
  "read_entries pf [] = Inr []"
| "read_entries pf (e # es) =
     (case pf e of
        None \<Rightarrow> Inl ValueError
      | Some v \<Rightarrow>
          (case read_entries pf es of Inl ex \<Rightarrow> Inl ex | Inr vs \<Rightarrow> Inr (v # vs)))"

text \<open>
  \<^verbatim>\<open>for j in range(n): constraint_row.append(float(self.constraint_entries[i][j].get()))\<close>,
  the list argument being the values of \<open>j\<close> still to come.
\<close>

fun read_row :: "(string \<Rightarrow> 'a option) \<Rightarrow> string list list \<Rightarrow> nat \<Rightarrow> nat list \<Rightarrow> exn + 'a list" where
  "read_row pf ces i [] = Inr []"
| "read_row pf ces i (j # js) =
     (case index ces i of
        Inl ex \<Rightarrow> Inl ex
      | Inr row \<Rightarrow>
          (case index row j of
             Inl ex \<Rightarrow> Inl ex
           | Inr e \<Rightarrow>
               (case pf e of
                  None \<Rightarrow> Inl ValueError
                | Some v \<Rightarrow>
                    (case read_row pf ces i js of
                       Inl ex \<Rightarrow> Inl ex
                     | Inr vs \<Rightarrow> Inr (v # vs)))))"

text \<open>The loop over the constraints of \<^verbatim>\<open>solve_problem\<close> (lines 238-254).\<close>

fun constraint_loop ::
  "(string \<Rightarrow> 'a::uminus option) \<Rightarrow> 'b gui_state \<Rightarrow> nat list \<Rightarrow> 'a rows \<Rightarrow> exn + 'a rows" where
  "constraint_loop pf st [] acc = Inr acc"
| "constraint_loop pf st (i # is) acc =
     (case read_row pf (constraint_entries st) i [0 ..< nat (num_variables st)] of
        Inl ex \<Rightarrow> Inl ex
      | Inr constraint_row \<Rightarrow>
          (case index (bound_entries st) i of
             Inl ex \<Rightarrow> Inl ex
           | Inr be \<Rightarrow>
               (case pf be of
                  None \<Rightarrow> Inl ValueError
                | Some bound_value \<Rightarrow>
                    (case index (type_combos st) i of
                       Inl ex \<Rightarrow> Inl ex
                     | Inr constraint_type \<Rightarrow>
                         constraint_loop pf st is
                           (add_constraint acc constraint_row constraint_type bound_value)))))"

text \<open>
  Lines 223-264 of \<^verbatim>\<open>solve_problem\<close>: everything up to the arguments of the solver
  call. The rows built by the loop all have \<^verbatim>\<open>num_variables\<close> entries, so
  \<^verbatim>\<open>np.array\<close> always succeeds on them.
\<close>

definition solve_args :: "(string \<Rightarrow> 'a::uminus option) \<Rightarrow> 'b gui_state \<Rightarrow> exn + 'a linprog_args" where
  "solve_args pf st =
     (case read_entries pf (obj_entries st) of
        Inl ex \<Rightarrow> Inl ex
      | Inr c0 \<Rightarrow>
          (let c1 = (if objective_type st = ''maximize'' then map uminus c0 else c0) in
           case constraint_loop pf st [0 ..< nat (num_constraints st)] ([], [], [], []) of
             Inl ex \<Rightarrow> Inl ex
           | Inr (Aub, bub, Aeq, beq) \<Rightarrow>
               Inr \<lparr> c = c1,
                     A_ub = array_or_None Aub, b_ub = array_or_None bub,
                     A_eq = array_or_None Aeq, b_eq = array_or_None beq,
                     bounds = replicate (length c1) (0, None) \<rparr>))"

text \<open>
  \<^verbatim>\<open>display_results(result, c)\<close> of the form (its parameter \<^verbatim>\<open>c\<close> is never read). The
  results box is emptied first; the text and the two labels are written only if the
  whole report could be built. Negating or formatting \<^verbatim>\<open>None\<close>, and iterating over
  it, raise \<^verbatim>\<open>TypeError\<close>.
\<close>

definition nl :: string where
  "nl = [CHR 0x0A]"

definition banner :: string where
  "banner = replicate 50 (CHR ''='')"

definition gui_display_results :: "'a::uminus gui_state \<Rightarrow> 'a opt_result \<Rightarrow> 'a gui_state \<times> exn option" where
  "gui_display_results st result =
     (let st0 = st\<lparr>results_text := []\<rparr>;
          head = [Str ''LINEAR PROGRAMMING SOLUTION'', Str nl, Str banner, Str nl, Str nl]
      in if success result then
           (case result_fun result of
              None \<Rightarrow> (st0, Some TypeError)
            | Some v \<Rightarrow>
                (let optimal_value = (if objective_type st = ''maximize'' then - v else v) in
                 case result_x result of
                   None \<Rightarrow> (st0, Some TypeError)
                 | Some xs \<Rightarrow>
                     (st0\<lparr>results_text :=
                            head
                            @ [Str ''Status: '', Str (message result), Str nl, Str nl,
                               Str ''Optimal '', Title (objective_type st), Str '' Value: '',
                               Float6 optimal_value, Str nl, Str nl,
                               Str ''Optimal Solution:'', Str nl]
                            @ concat (map (\<lambda>(i, value).
                                  [Str ''  x'', Num (int i + 1), Str '' = '', Float6 value, Str nl])
                                (enumerate 0 xs))
                            @ [Str nl, Str ''Number of iterations: '', Num (nit result), Str nl],
                          optimal_value_label := [Str ''Optimal Value: '', Float6 optimal_value],
                          status_label := [Str ''Status: '', Str (message result)]\<rparr>,
                      None)))
         else
           (st0\<lparr>results_text :=
                  head
                  @ [Str ''Status: '', Str (message result), Str nl,
                     Str ''The problem could not be solved.'', Str nl,
                     Str ''This might be due to:'', Str nl,
                     Str ''- Infeasible constraints'', Str nl,
                     Str ''- Unbounded solution'', Str nl,
                     Str ''- Numerical issues'', Str nl],
                optimal_value_label := [Str ''Optimal Value: No solution''],
                status_label := [Str ''Status: '', Str (message result)]\<rparr>,
            None))"

text \<open>
  \<^verbatim>\<open>solve_problem\<close>: one \<^verbatim>\<open>try\<close> around reading the form, the solver call and the
  report; whatever is raised ends in an error dialog.
\<close>

definition solve_problem ::
  "(string \<Rightarrow> 'a::uminus option) \<Rightarrow> 'a solver \<Rightarrow> 'a gui_state \<Rightarrow> 'a gui_state \<times> 'a event list" where
  "solve_problem pf linprog st =
     (case solve_args pf st of
        Inl ex \<Rightarrow> (st, [Showerror [Str ''Error solving problem: '', Exc ex]])
      | Inr args \<Rightarrow>
          (case linprog args of
             Inl ex \<Rightarrow> (st, [Linprog args, Showerror [Str ''Error solving problem: '', Exc ex]])
           | Inr result \<Rightarrow>
               (case gui_display_results st result of
                  (st', None) \<Rightarrow> (st', [Linprog args])
                | (st', Some ex) \<Rightarrow>
                    (st', [Linprog args, Showerror [Str ''Error solving problem: '', Exc ex]]))))"

subsection \<open>Saving and loading the form\<close>

text \<open>
  The persisted document, as \<^verbatim>\<open>save_problem\<close> builds it. A file either holds such a
  document or text that \<^verbatim>\<open>json.load\<close> refuses; JSON of any other shape is outside the
  model. \<^verbatim>\<open>json.dump\<close> followed by \<^verbatim>\<open>json.load\<close> returns the strings, integers and
  lists of a document as they were, which is why a file can be identified with the
  document written to it. A directory is its listing, in the order of
  \<^verbatim>\<open>os.listdir\<close>, with the content of each file.
\<close>

record constraint_data =
  coeffs :: "string list"
  ctype :: string
  bound :: string

record problem_data =
  d_num_variables :: int
  d_num_constraints :: int
  d_objective_type :: string
  d_objective_coeffs :: "string list"
  d_constraints :: "constraint_data list"

datatype 'd content = Document 'd | Malformed

type_synonym 'd directory = "(string \<times> 'd content) list"

text \<open>
  \<^verbatim>\<open>open(filename, 'w')\<close> and the dump: an existing file is overwritten where it
  stands. Where a new name appears in the listing is up to the file system; the model
  puts it last.
\<close>

definition write_file :: "string \<Rightarrow> 'd \<Rightarrow> 'd directory \<Rightarrow> 'd directory" where
  "write_file filename d dir =
     (if filename \<in> set (map fst dir)
      then map (\<lambda>(f, x). if f = filename then (f, Document d) else (f, x)) dir
      else dir @ [(filename, Document d)])"

text \<open>\<^verbatim>\<open>str\<close> of an integer, as the f-string of the file name writes it.\<close>

fun str_nat :: "nat \<Rightarrow> string" where
  "str_nat n =
     (if n < 10 then [char_of (48 + n)] else str_nat (n div 10) @ [char_of (48 + n mod 10)])"

declare str_nat.simps [simp del]

definition str_int :: "int \<Rightarrow> string" where
  "str_int i = (if i < 0 then CHR ''-'' # str_nat (nat (- i)) else str_nat (nat i))"

fun save_constraints :: "'a gui_state \<Rightarrow> nat list \<Rightarrow> exn + constraint_data list" where
  "save_constraints st [] = Inr []"
| "save_constraints st (i # is) =
     (case index (constraint_entries st) i of
        Inl ex \<Rightarrow> Inl ex
      | Inr row \<Rightarrow>
          (case index (type_combos st) i of
             Inl ex \<Rightarrow> Inl ex
           | Inr t \<Rightarrow>
               (case index (bound_entries st) i of
                  Inl ex \<Rightarrow> Inl ex
                | Inr b \<Rightarrow>
                    (case save_constraints st is of
                       Inl ex \<Rightarrow> Inl ex
                     | Inr rest \<Rightarrow> Inr (\<lparr>coeffs = row, ctype = t, bound = b\<rparr> # rest)))))"

definition save_filename :: "'a gui_state \<Rightarrow> string" where
  "save_filename st =
     ''lp_problem_'' @ str_int (num_variables st) @ ''vars_''
     @ str_int (num_constraints st) @ ''cons.json''"

definition gui_save_problem ::
  "'a gui_state \<Rightarrow> problem_data directory \<Rightarrow> problem_data directory \<times> 'a event list" where
  "gui_save_problem st dir =
     (case save_constraints st [0 ..< nat (num_constraints st)] of
        Inl ex \<Rightarrow> (dir, [Showerror [Str ''Error saving problem: '', Exc ex]])
      | Inr cs \<Rightarrow>
          (write_file (save_filename st)
             \<lparr>d_num_variables = num_variables st,
              d_num_constraints = num_constraints st,
              d_objective_type = objective_type st,
              d_objective_coeffs = obj_entries st,
              d_constraints = cs\<rparr> dir,
           [Showinfo [Str ''Problem saved as '', Str (save_filename st)]]))"

text \<open>
  \<^verbatim>\<open>update_problem_size\<close> throws the entry widgets away and builds new ones, filled
  with the defaults, for the current values of the two spin boxes.
\<close>

definition update_problem_size :: "'a gui_state \<Rightarrow> 'a gui_state" where
  "update_problem_size st =
     st\<lparr>obj_entries := replicate (nat (num_variables st)) ''1'',
        constraint_entries :=
          replicate (nat (num_constraints st)) (replicate (nat (num_variables st)) ''1''),
        type_combos := replicate (nat (num_constraints st)) ''<='',
        bound_entries := replicate (nat (num_constraints st)) ''0''\<rparr>"

text \<open>
  The loops of \<^verbatim>\<open>load_problem\<close> write into the widgets one at a time; an
  \<^verbatim>\<open>IndexError\<close> leaves the form as it is at that moment.
\<close>

fun load_objective :: "(nat \<times> string) list \<Rightarrow> 'a gui_state \<Rightarrow> 'a gui_state \<times> exn option" where
  "load_objective [] st = (st, None)"
| "load_objective ((i, coeff) # rest) st =
     (if i < length (obj_entries st)
      then load_objective rest (st\<lparr>obj_entries := (obj_entries st)[i := coeff]\<rparr>)
      else (st, Some IndexError))"

fun load_row :: "nat \<Rightarrow> (nat \<times> string) list \<Rightarrow> 'a gui_state \<Rightarrow> 'a gui_state \<times> exn option" where
  "load_row i [] st = (st, None)"
| "load_row i ((j, coeff) # rest) st =
     (if i < length (constraint_entries st) \<and> j < length (constraint_entries st ! i)
      then load_row i rest
             (st\<lparr>constraint_entries :=
                   (constraint_entries st)[i := (constraint_entries st ! i)[j := coeff]]\<rparr>)
      else (st, Some IndexError))"

fun load_constraints ::
  "(nat \<times> constraint_data) list \<Rightarrow> 'a gui_state \<Rightarrow> 'a gui_state \<times> exn option" where
  "load_constraints [] st = (st, None)"
| "load_constraints ((i, constraint) # rest) st =
     (case load_row i (enumerate 0 (coeffs constraint)) st of
        (st1, Some ex) \<Rightarrow> (st1, Some ex)
      | (st1, None) \<Rightarrow>
          (if i < length (type_combos st1) then
             (let st2 = st1\<lparr>type_combos := (type_combos st1)[i := ctype constraint]\<rparr> in
              if i < length (bound_entries st2) then
                load_constraints rest
                  (st2\<lparr>bound_entries := (bound_entries st2)[i := bound constraint]\<rparr>)
              else (st2, Some IndexError))
           else (st1, Some IndexError)))"

definition saved_name :: "string \<Rightarrow> bool" where
  "saved_name f \<longleftrightarrow> suffix ''.json'' f \<and> prefix ''lp_problem'' f"

definition gui_load_problem ::
  "problem_data directory \<Rightarrow> 'a gui_state \<Rightarrow> 'a gui_state \<times> 'a event list" where
  "gui_load_problem dir st =
     (let json_files = filter (\<lambda>(f, x). saved_name f) dir in
      if json_files = [] then (st, [Showwarning [Str ''No saved problems found'']])
      else
        (case hd json_files of
           (filename, Malformed) \<Rightarrow>
             (st, [Showerror [Str ''Error loading problem: '', Exc JSONDecodeError]])
         | (filename, Document problem_data) \<Rightarrow>
             (let st1 = update_problem_size
                          (st\<lparr>num_variables := d_num_variables problem_data,
                              num_constraints := d_num_constraints problem_data,
                              objective_type := d_objective_type problem_data\<rparr>) in
              case load_objective (enumerate 0 (d_objective_coeffs problem_data)) st1 of
                (st2, Some ex) \<Rightarrow>
                  (st2, [Showerror [Str ''Error loading problem: '', Exc ex]])
              | (st2, None) \<Rightarrow>
                  (case load_constraints (enumerate 0 (d_constraints problem_data)) st2 of
                     (st3, Some ex) \<Rightarrow>
                       (st3, [Showerror [Str ''Error loading problem: '', Exc ex]])
                   | (st3, None) \<Rightarrow>
                       (st3, [Showinfo [Str ''Problem loaded from '', Str filename]])))))"

section \<open>The command-line front end\<close>

text \<open>
  \<^verbatim>\<open>self.problem\<close> after \<^verbatim>\<open>input_problem\<close>: the five arrays and the keys
  \<^verbatim>\<open>'maximize'\<close> and \<^verbatim>\<open>'num_vars'\<close>. An array and the nested list it was built
  from are the same value in the model.
\<close>

record 'a cli_problem = "'a lp_arrays" +
  maximize :: bool
  num_vars :: int

text \<open>
  Standard input is the list of lines still to be read; \<^verbatim>\<open>input\<close> takes the first
  one and raises \<^verbatim>\<open>EOFError\<close> when there is none.
\<close>

definition input_line :: "string list \<Rightarrow> exn + string \<times> string list" where
  "input_line stdin = (case stdin of [] \<Rightarrow> Inl EOFError | l # rest \<Rightarrow> Inr (l, rest))"

definition input_number :: "(string \<Rightarrow> 'n option) \<Rightarrow> string list \<Rightarrow> exn + 'n \<times> string list" where
  "input_number parse stdin =
     (case input_line stdin of
        Inl ex \<Rightarrow> Inl ex
      | Inr (l, rest) \<Rightarrow> (case parse l of None \<Rightarrow> Inl ValueError | Some v \<Rightarrow> Inr (v, rest)))"

text \<open>
  \<^verbatim>\<open>str.lower\<close> and \<^verbatim>\<open>str.strip\<close>, a character being a code point below 256.
  The upper-case letters there are A to Z (65 to 90) and 192 to 222 without 215, each
  32 below its lower-case form; the white space characters are 9 to 13, 28 to 32, 133
  (next line) and 160 (no-break space).
\<close>

definition lower :: "string \<Rightarrow> string" where
  "lower s =
     map (\<lambda>ch. if (65 \<le> (of_char ch :: nat) \<and> (of_char ch :: nat) \<le> 90)
                  \<or> (192 \<le> (of_char ch :: nat) \<and> (of_char ch :: nat) \<le> 222
                      \<and> (of_char ch :: nat) \<noteq> 215)
               then char_of ((of_char ch :: nat) + 32) else ch) s"

definition isspace :: "char \<Rightarrow> bool" where
  "isspace ch \<longleftrightarrow>
     (9 \<le> (of_char ch :: nat) \<and> (of_char ch :: nat) \<le> 13)
     \<or> (28 \<le> (of_char ch :: nat) \<and> (of_char ch :: nat) \<le> 32)
     \<or> (of_char ch :: nat) = 133
     \<or> (of_char ch :: nat) = 160"

definition strip :: "string \<Rightarrow> string" where
  "strip s = rev (dropWhile isspace (rev (dropWhile isspace s)))"

text \<open>\<^verbatim>\<open>for i in range(k): coeff = float(input(...)); c.append(coeff)\<close>\<close>

fun read_floats :: "(string \<Rightarrow> 'a option) \<Rightarrow> nat \<Rightarrow> string list \<Rightarrow> exn + 'a list \<times> string list" where
  "read_floats pf 0 stdin = Inr ([], stdin)"
| "read_floats pf (Suc k) stdin =
     (case input_number pf stdin of
        Inl ex \<Rightarrow> Inl ex
      | Inr (coeff, rest) \<Rightarrow>
          (case read_floats pf k rest of
             Inl ex \<Rightarrow> Inl ex
           | Inr (vs, rest') \<Rightarrow> Inr (coeff # vs, rest')))"

text \<open>The loop over the constraints of \<^verbatim>\<open>input_problem\<close> (lines 49-67), \<open>k\<close> rounds to go.\<close>

fun read_constraints ::
  "(string \<Rightarrow> 'a::uminus option) \<Rightarrow> nat \<Rightarrow> nat \<Rightarrow> string list \<Rightarrow> 'a rows \<Rightarrow> exn + 'a rows \<times> string list" where
  "read_constraints pf n 0 stdin acc = Inr (acc, stdin)"
| "read_constraints pf n (Suc k) stdin acc =
     (case read_floats pf n stdin of
        Inl ex \<Rightarrow> Inl ex
      | Inr (constraint_coeffs, in1) \<Rightarrow>
          (case input_line in1 of
             Inl ex \<Rightarrow> Inl ex
           | Inr (l, in2) \<Rightarrow>
               (let constraint_type = strip l in
                case input_number pf in2 of
                  Inl ex \<Rightarrow> Inl ex
                | Inr (bound_value, in3) \<Rightarrow>
                    read_constraints pf n k in3
                      (add_constraint acc constraint_coeffs constraint_type bound_value))))"

text \<open>
  \<^verbatim>\<open>input_problem\<close>. It has no \<^verbatim>\<open>try\<close>: an exception leaves the method (and the
  program). The result is the new \<^verbatim>\<open>self.problem\<close> and what is left of the input.
\<close>

definition input_problem ::
  "(string \<Rightarrow> int option) \<Rightarrow> (string \<Rightarrow> 'a::uminus option) \<Rightarrow> string list
     \<Rightarrow> exn + 'a cli_problem \<times> string list" where
  "input_problem pi pf stdin =
     (case input_number pi stdin of
        Inl ex \<Rightarrow> Inl ex
      | Inr (nvars, in1) \<Rightarrow>
     (case input_number pi in1 of
        Inl ex \<Rightarrow> Inl ex
      | Inr (nconstraints, in2) \<Rightarrow>
     (case input_line in2 of
        Inl ex \<Rightarrow> Inl ex
      | Inr (l, in3) \<Rightarrow>
     (let obj_type = lower l in
      case read_floats pf (nat nvars) in3 of
        Inl ex \<Rightarrow> Inl ex
      | Inr (c0, in4) \<Rightarrow>
     (let c1 = (if prefix ''max'' obj_type then map uminus c0 else c0) in
      case read_constraints pf (nat nvars) (nat nconstraints) in4 ([], [], [], []) of
        Inl ex \<Rightarrow> Inl ex
      | Inr ((Aub, bub, Aeq, beq), in5) \<Rightarrow>
          Inr (\<lparr> c = c1,
                 A_ub = array_or_None Aub, b_ub = array_or_None bub,
                 A_eq = array_or_None Aeq, b_eq = array_or_None beq,
                 maximize = prefix ''max'' obj_type,
                 num_vars = nvars \<rparr>, in5))))))"

text \<open>
  \<^verbatim>\<open>display_results\<close> of the command line: the lines printed, and the exception that
  cut the report short, if any.
\<close>

definition cli_display_results ::
  "'a::uminus cli_problem \<Rightarrow> 'a opt_result \<Rightarrow> 'a event list \<times> exn option" where
  "cli_display_results p result =
     (let head = [Print [Str (nl @ banner)], Print [Str ''SOLUTION RESULTS''], Print [Str banner]]
      in if success result then
           (let out1 = head @ [Print [Str ''Status: '', Str (message result)],
                               Print [Str ''Iterations: '', Num (nit result)]] in
            case result_fun result of
              None \<Rightarrow> (out1, Some TypeError)
            | Some v \<Rightarrow>
                (let optimal_value = (if maximize p then - v else v);
                     obj_type = (if maximize p then ''Maximum'' else ''Minimum'');
                     out2 = out1 @ [Print [Str nl, Str obj_type, Str '' Value: '', Float6 optimal_value],
                                    Print [Str (nl @ ''Optimal Solution:'')]]
                 in case result_x result of
                      None \<Rightarrow> (out2, Some TypeError)
                    | Some xs \<Rightarrow>
                        (out2
                         @ map (\<lambda>(i, value).
                               Print [Str ''  x'', Num (int i + 1), Str '' = '', Float6 value])
                             (enumerate 0 xs)
                         @ [Print [Str (nl @ ''Solution Analysis:'')],
                            Print [Str ''  - All variables are non-negative: '', AllNonNeg xs],
                            Print [Str ''  - Solution is at vertex of feasible region'']],
                         None)))
         else
           (head @ [Print [Str ''Status: '', Str (message result)],
                    Print [Str (nl @ ''The problem could not be solved.'')],
                    Print [Str ''Possible reasons:''],
                    Print [Str ''  - Infeasible constraints (no solution exists)''],
                    Print [Str ''  - Unbounded solution (infinite optimal value)''],
                    Print [Str ''  - Numerical issues'']],
            None))"

text \<open>
  \<^verbatim>\<open>solve\<close>: the stored arrays go to the solver as they are, with one
  \<^verbatim>\<open>(0, None)\<close> bound for each of \<^verbatim>\<open>num_vars\<close>.
\<close>

definition solve :: "'a::uminus solver \<Rightarrow> 'a cli_problem \<Rightarrow> 'a event list" where
  "solve linprog p =
     (let head = [Print [Str (nl @ banner)], Print [Str ''SOLVING...''], Print [Str banner]];
          args = \<lparr> c = c p, A_ub = A_ub p, b_ub = b_ub p, A_eq = A_eq p, b_eq = b_eq p,
                   bounds = replicate (nat (num_vars p)) (0, None) \<rparr>
      in case linprog args of
           Inl ex \<Rightarrow> head @ [Linprog args, Print [Str ''Error solving problem: '', Exc ex]]
         | Inr result \<Rightarrow>
             (case cli_display_results p result of
                (out, None) \<Rightarrow> head @ [Linprog args] @ out
              | (out, Some ex) \<Rightarrow>
                  head @ [Linprog args] @ out @ [Print [Str ''Error solving problem: '', Exc ex]]))"

subsection \<open>Saving and loading the stored problem\<close>

text \<open>
  \<^verbatim>\<open>save_problem\<close> dumps \<^verbatim>\<open>self.problem\<close> with its arrays turned into lists, so the
  document of this front end is a \<open>cli_problem\<close>. \<^verbatim>\<open>load_problem\<close> turns the four
  arrays back with \<^verbatim>\<open>np.array\<close>, which (NumPy 1.24 and later) raises
  \<^verbatim>\<open>ValueError\<close> on rows of different lengths, and assigns \<^verbatim>\<open>self.problem\<close> last.
  The state is \<open>None\<close> for the empty dictionary the program starts with.
\<close>

definition cli_save_problem ::
  "'a cli_problem \<Rightarrow> string \<Rightarrow> 'a cli_problem directory \<Rightarrow> 'a cli_problem directory \<times> 'a event list" where
  "cli_save_problem p filename dir =
     (write_file filename p dir, [Print [Str ''Problem saved to '', Str filename]])"

definition np_array :: "'a list list \<Rightarrow> exn + 'a list list" where
  "np_array rows =
     (if list_all (\<lambda>r. length r = length (hd rows)) rows then Inr rows else Inl ValueError)"

definition load_array :: "'a list list option \<Rightarrow> exn + 'a list list option" where
  "load_array v =
     (case v of
        None \<Rightarrow> Inr None
      | Some rows \<Rightarrow> (case np_array rows of Inl ex \<Rightarrow> Inl ex | Inr a \<Rightarrow> Inr (Some a)))"

definition cli_load_problem ::
  "'a cli_problem directory \<Rightarrow> string \<Rightarrow> 'a cli_problem option
     \<Rightarrow> 'a cli_problem option \<times> 'a event list" where
  "cli_load_problem dir filename st =
     (case map_of dir filename of
        None \<Rightarrow> (st, [Print [Str ''Error loading problem: '', Exc FileNotFoundError]])
      | Some Malformed \<Rightarrow> (st, [Print [Str ''Error loading problem: '', Exc JSONDecodeError]])
      | Some (Document data) \<Rightarrow>
          (case load_array (A_ub data) of
             Inl ex \<Rightarrow> (st, [Print [Str ''Error loading problem: '', Exc ex]])
           | Inr aub \<Rightarrow>
               (case load_array (A_eq data) of
                  Inl ex \<Rightarrow> (st, [Print [Str ''Error loading problem: '', Exc ex]])
                | Inr aeq \<Rightarrow>
                    (Some (data\<lparr>A_ub := aub, A_eq := aeq\<rparr>),
                     [Print [Str ''Problem loaded from '', Str filename]]))))"

section \<open>Vocabulary of the statements\<close>

text \<open>The solver calls among the events of a run, in order.\<close>

fun linprog_calls :: "'a event list \<Rightarrow> 'a linprog_args list" where
  "linprog_calls [] = []"
| "linprog_calls (Linprog args # es) = args # linprog_calls es"
| "linprog_calls (e # es) = linprog_calls es"

text \<open>The numbers that a piece of output, a line, a run shows, in order.\<close>

fun piece_floats :: "'a piece \<Rightarrow> 'a list" where
  "piece_floats (Float6 v) = [v]"
| "piece_floats p = []"

definition line_floats :: "'a line \<Rightarrow> 'a list" where
  "line_floats l = concat (map piece_floats l)"

fun event_floats :: "'a event \<Rightarrow> 'a list" where
  "event_floats (Linprog args) = []"
| "event_floats (Print l) = line_floats l"
| "event_floats (Showerror l) = line_floats l"
| "event_floats (Showinfo l) = line_floats l"
| "event_floats (Showwarning l) = line_floats l"

definition printed_floats :: "'a event list \<Rightarrow> 'a list" where
  "printed_floats es = concat (map event_floats es)"

text \<open>
  A user-declared constraint: coefficients, operator text, bound. The rows and bounds
  that a list of constraints contributes to the inequality and to the equality arrays.
\<close>

type_synonym 'a constraint = "'a list \<times> string \<times> 'a"

definition is_ub :: "string \<Rightarrow> bool" where
  "is_ub t \<longleftrightarrow> t = ''<='' \<or> t = ''>=''"

definition ub_rows :: "'a::uminus constraint list \<Rightarrow> 'a list list" where
  "ub_rows cs =
     map (\<lambda>(a, t, b). if t = ''>='' then map uminus a else a) (filter (\<lambda>(a, t, b). is_ub t) cs)"

definition ub_bounds :: "'a::uminus constraint list \<Rightarrow> 'a list" where
  "ub_bounds cs =
     map (\<lambda>(a, t, b). if t = ''>='' then - b else b) (filter (\<lambda>(a, t, b). is_ub t) cs)"

definition eq_rows :: "'a constraint list \<Rightarrow> 'a list list" where
  "eq_rows cs = map (\<lambda>(a, t, b). a) (filter (\<lambda>(a, t, b). \<not> is_ub t) cs)"

definition eq_bounds :: "'a constraint list \<Rightarrow> 'a list" where
  "eq_bounds cs = map (\<lambda>(a, t, b). b) (filter (\<lambda>(a, t, b). \<not> is_ub t) cs)"

text \<open>An operator text read as the code reads it: whatever is not an inequality is an equality.\<close>

definition as_equal :: "string \<Rightarrow> string" where
  "as_equal t = (if is_ub t then t else ''='')"

text \<open>
  The linear program a form denotes when \<^verbatim>\<open>solve_problem\<close> reads it: all objective
  entries, and of the first \<^verbatim>\<open>num_constraints\<close> rows the first \<^verbatim>\<open>num_variables\<close>
  entries. \<open>gui_readable\<close> says that those widgets exist and hold numbers.
\<close>

definition gui_objective :: "(string \<Rightarrow> 'a option) \<Rightarrow> 'b gui_state \<Rightarrow> 'a list" where
  "gui_objective pf st = map (\<lambda>e. the (pf e)) (obj_entries st)"

definition gui_constraint :: "(string \<Rightarrow> 'a option) \<Rightarrow> 'b gui_state \<Rightarrow> nat \<Rightarrow> 'a constraint" where
  "gui_constraint pf st i =
     (map (\<lambda>e. the (pf e)) (take (nat (num_variables st)) (constraint_entries st ! i)),
      type_combos st ! i,
      the (pf (bound_entries st ! i)))"

definition gui_constraints :: "(string \<Rightarrow> 'a option) \<Rightarrow> 'b gui_state \<Rightarrow> 'a constraint list" where
  "gui_constraints pf st = map (gui_constraint pf st) [0 ..< nat (num_constraints st)]"

definition parses :: "(string \<Rightarrow> 'a option) \<Rightarrow> string \<Rightarrow> bool" where
  "parses pf e \<longleftrightarrow> pf e \<noteq> None"

definition gui_readable :: "(string \<Rightarrow> 'a option) \<Rightarrow> 'b gui_state \<Rightarrow> bool" where
  "gui_readable pf st \<longleftrightarrow>
     list_all (parses pf) (obj_entries st)
     \<and> nat (num_constraints st) \<le> length (constraint_entries st)
     \<and> nat (num_constraints st) \<le> length (bound_entries st)
     \<and> nat (num_constraints st) \<le> length (type_combos st)
     \<and> list_all (\<lambda>row. nat (num_variables st) \<le> length row
                        \<and> list_all (parses pf) (take (nat (num_variables st)) row))
         (take (nat (num_constraints st)) (constraint_entries st))
     \<and> list_all (parses pf) (take (nat (num_constraints st)) (bound_entries st))"

text \<open>
  A form as \<^verbatim>\<open>update_problem_size\<close> leaves it: as many widgets as the spin boxes say.
\<close>

definition gui_consistent :: "'a gui_state \<Rightarrow> bool" where
  "gui_consistent st \<longleftrightarrow>
     length (obj_entries st) = nat (num_variables st)
     \<and> length (constraint_entries st) = nat (num_constraints st)
     \<and> length (type_combos st) = nat (num_constraints st)
     \<and> length (bound_entries st) = nat (num_constraints st)
     \<and> list_all (\<lambda>row. length row = nat (num_variables st)) (constraint_entries st)"

text \<open>
  What a user types at the prompts of \<^verbatim>\<open>input_problem\<close>, line by line, and the linear
  program those lines denote. \<open>cli_readable\<close> says that the two counts and all numbers
  parse and that the counts are those of the lines given.
\<close>

record typed_program =
  t_num_vars :: string
  t_num_constraints :: string
  t_obj_type :: string
  t_objective :: "string list"
  t_constraints :: "(string list \<times> string \<times> string) list"

definition transcript :: "typed_program \<Rightarrow> string list" where
  "transcript tp =
     [t_num_vars tp, t_num_constraints tp, t_obj_type tp] @ t_objective tp
     @ concat (map (\<lambda>(row, t, b). row @ [t, b]) (t_constraints tp))"

definition cli_objective :: "(string \<Rightarrow> 'a option) \<Rightarrow> typed_program \<Rightarrow> 'a list" where
  "cli_objective pf tp = map (\<lambda>e. the (pf e)) (t_objective tp)"

definition cli_constraints :: "(string \<Rightarrow> 'a option) \<Rightarrow> typed_program \<Rightarrow> 'a constraint list" where
  "cli_constraints pf tp =
     map (\<lambda>(row, t, b). (map (\<lambda>e. the (pf e)) row, strip t, the (pf b))) (t_constraints tp)"

definition cli_readable ::
  "(string \<Rightarrow> int option) \<Rightarrow> (string \<Rightarrow> 'a option) \<Rightarrow> typed_program \<Rightarrow> bool" where
  "cli_readable pi pf tp \<longleftrightarrow>
     (case pi (t_num_vars tp) of
        None \<Rightarrow> False
      | Some n \<Rightarrow>
          length (t_objective tp) = nat n
          \<and> list_all (\<lambda>(row, t, b). length row = nat n) (t_constraints tp))
     \<and> (case pi (t_num_constraints tp) of
          None \<Rightarrow> False
        | Some m \<Rightarrow> length (t_constraints tp) = nat m)
     \<and> list_all (parses pf) (t_objective tp)
     \<and> list_all (\<lambda>(row, t, b). list_all (parses pf) row \<and> parses pf b) (t_constraints tp)"

text \<open>An array or \<^verbatim>\<open>None\<close>, as \<^verbatim>\<open>np.array\<close> can build it: all rows of one length.\<close>

definition rectangular :: "'a list list option \<Rightarrow> bool" where
  "rectangular v \<longleftrightarrow>
     (case v of None \<Rightarrow> True | Some rows \<Rightarrow> list_all (\<lambda>r. length r = length (hd rows)) rows)"

definition rows_of :: "'a list list option \<Rightarrow> 'a list list" where
  "rows_of v = (case v of None \<Rightarrow> [] | Some rows \<Rightarrow> rows)"

text \<open>A typed program with every operator line replaced by how the code reads it.\<close>

definition typed_as_equal :: "typed_program \<Rightarrow> typed_program" where
  "typed_as_equal tp =
     tp\<lparr>t_constraints := map (\<lambda>(row, t, b). (row, as_equal (strip t), b)) (t_constraints tp)\<rparr>"

text \<open>
  A parser for the worked examples: plain decimal integers, with an optional minus sign,
  on which it agrees with Python's \<^verbatim>\<open>int\<close> and \<^verbatim>\<open>float\<close>.
\<close>

fun digits_value :: "int \<Rightarrow> string \<Rightarrow> int option" where
  "digits_value acc [] = Some acc"
| "digits_value acc (ch # s) =
     (if 48 \<le> (of_char ch :: nat) \<and> (of_char ch :: nat) \<le> 57
      then digits_value (10 * acc + (int (of_char ch) - 48)) s
      else None)"

definition decimal :: "string \<Rightarrow> int option" where
  "decimal s =
     (case s of
        [] \<Rightarrow> None
      | ch # r \<Rightarrow>
          if ch = CHR ''-'' then (if r = [] then None else map_option uminus (digits_value 0 r))
          else digits_value 0 s)"

section \<open>Worked examples\<close>

text \<open>
  The transportation example of the form (\<^verbatim>\<open>load_transportation_example\<close>), the
  production example as typed at the prompts of the command line, and a small program
  with an equality and with an operator text that is none of the three offered.
  \<open>stale_form\<close> is the initial form after the number of variables was typed over
  with 1 (typing does not rebuild the widgets; only the arrows of the spin box do).
  \<open>two_saved_problems\<close> is a directory after two saves, \<open>inconsistent_file\<close> one
  with a file that announces one variable and carries two coefficients, and
  \<open>mismatched_problem\<close> a stored command-line problem with two objective
  coefficients and a row of three.
\<close>

definition blank_form :: "int gui_state" where
  "blank_form =
     \<lparr>num_variables = 2, num_constraints = 2, objective_type = ''maximize'',
      obj_entries = [''1'', ''1''],
      constraint_entries = [[''1'', ''1''], [''1'', ''1'']],
      type_combos = [''<='', ''<=''],
      bound_entries = [''0'', ''0''],
      results_text = [],
      optimal_value_label = [Str ''Optimal Value: Not solved yet''],
      status_label = [Str ''Status: Not solved yet'']\<rparr>"

definition transportation_form :: "int gui_state" where
  "transportation_form =
     blank_form\<lparr>num_variables := 3, num_constraints := 2, objective_type := ''minimize'',
       obj_entries := [''2'', ''3'', ''1''],
       constraint_entries := [[''1'', ''1'', ''1''], [''2'', ''1'', ''3'']],
       type_combos := [''>='', ''<=''],
       bound_entries := [''100'', ''200'']\<rparr>"

definition mixed_form :: "int gui_state" where
  "mixed_form =
     blank_form\<lparr>num_variables := 2, num_constraints := 3, objective_type := ''maximize'',
       obj_entries := [''3'', ''2''],
       constraint_entries := [[''1'', ''1''], [''1'', ''-1''], [''2'', ''5'']],
       type_combos := [''<='', ''='', ''=<''],
       bound_entries := [''80'', ''0'', ''7'']\<rparr>"

definition optimal_result :: "int opt_result" where
  "optimal_result =
     \<lparr>success = True,
      message = ''Optimization terminated successfully. (HiGHS Status 7: Optimal)'',
      nit = 2, result_fun = Some (- 410), result_x = Some [90, 70]\<rparr>"

definition infeasible_result :: "int opt_result" where
  "infeasible_result =
     \<lparr>success = False,
      message = ''The problem is infeasible. (HiGHS Status 8: model_status is Infeasible)'',
      nit = 0, result_fun = None, result_x = None\<rparr>"

definition optimal_solver :: "int solver" where
  "optimal_solver args = Inr optimal_result"

definition rejecting_solver :: "int solver" where
  "rejecting_solver args = Inl ValueError"

definition small_form :: "int gui_state" where
  "small_form =
     blank_form\<lparr>num_variables := 1, num_constraints := 0, objective_type := ''minimize'',
       obj_entries := [''7''], constraint_entries := [], type_combos := [],
       bound_entries := []\<rparr>"

definition two_saved_problems :: "problem_data directory" where
  "two_saved_problems =
     [(''lp_problem_1vars_0cons.json'',
       Document \<lparr>d_num_variables = 1, d_num_constraints = 0, d_objective_type = ''minimize'',
                 d_objective_coeffs = [''7''], d_constraints = []\<rparr>),
      (''lp_problem_2vars_2cons.json'',
       Document \<lparr>d_num_variables = 2, d_num_constraints = 2, d_objective_type = ''maximize'',
                 d_objective_coeffs = [''1'', ''1''],
                 d_constraints = [\<lparr>coeffs = [''1'', ''1''], ctype = ''<='', bound = ''0''\<rparr>,
                                  \<lparr>coeffs = [''1'', ''1''], ctype = ''<='', bound = ''0''\<rparr>]\<rparr>)]"

definition inconsistent_file :: "problem_data directory" where
  "inconsistent_file =
     [(''lp_problem_1vars_0cons.json'',
       Document \<lparr>d_num_variables = 1, d_num_constraints = 0, d_objective_type = ''minimize'',
                 d_objective_coeffs = [''5'', ''7''], d_constraints = []\<rparr>)]"

definition stale_form :: "int gui_state" where
  "stale_form = blank_form\<lparr>num_variables := 1\<rparr>"

definition production_problem :: "int cli_problem" where
  "production_problem =
     \<lparr>c = [- 3, - 2], A_ub = Some [[2, 1], [1, 1], [1, 0]], b_ub = Some [100, 80, 40],
      A_eq = None, b_eq = None, maximize = True, num_vars = 2\<rparr>"

definition mismatched_problem :: "int cli_problem" where
  "mismatched_problem =
     \<lparr>c = [3, 2], A_ub = Some [[1, 1, 1]], b_ub = Some [10],
      A_eq = None, b_eq = None, maximize = False, num_vars = 2\<rparr>"

definition production_typed :: typed_program where
  "production_typed =
     \<lparr>t_num_vars = ''2'', t_num_constraints = ''3'', t_obj_type = ''Max'',
      t_objective = [''3'', ''2''],
      t_constraints = [([''2'', ''1''], ''<='', ''100''),
                       ([''1'', ''1''], ''<='', ''80''),
                       ([''1'', ''0''], ''<='', ''40'')]\<rparr>"

definition transportation_typed :: typed_program where
  "transportation_typed =
     \<lparr>t_num_vars = ''3'', t_num_constraints = ''2'', t_obj_type = ''min'',
      t_objective = [''2'', ''3'', ''1''],
      t_constraints = [([''1'', ''1'', ''1''], '' >='', ''100''),
                       ([''2'', ''1'', ''3''], ''<='', ''200'')]\<rparr>"

definition mixed_typed :: typed_program where
  "mixed_typed =
     \<lparr>t_num_vars = ''2'', t_num_constraints = ''3'', t_obj_type = ''max'',
      t_objective = [''3'', ''2''],
      t_constraints = [([''1'', ''1''], ''<='', ''80''),
                       ([''1'', ''-1''], ''='', ''0''),
                       ([''2'', ''5''], ''=<'', ''7'')]\<rparr>"

section \<open>Reading the form and the prompts\<close>

text \<open>How the four lists grow with the constraints.\<close>

lemma ub_rows_simps:
  "ub_rows [] = []"
  "ub_rows ((a, t, b) # cs) =
     (if t = ''<='' then a # ub_rows cs else if t = ''>='' then map uminus a # ub_rows cs else ub_rows cs)"
  by (simp_all add: ub_rows_def is_ub_def)

lemma ub_bounds_simps:
  "ub_bounds [] = []"
  "ub_bounds ((a, t, b) # cs) =
     (if t = ''<='' then b # ub_bounds cs else if t = ''>='' then (- b) # ub_bounds cs else ub_bounds cs)"
  by (simp_all add: ub_bounds_def is_ub_def)

lemma eq_rows_simps:
  "eq_rows [] = []"
  "eq_rows ((a, t, b) # cs) = (if t = ''<='' \<or> t = ''>='' then eq_rows cs else a # eq_rows cs)"
  by (simp_all add: eq_rows_def is_ub_def)

lemma eq_bounds_simps:
  "eq_bounds [] = []"
  "eq_bounds ((a, t, b) # cs) = (if t = ''<='' \<or> t = ''>='' then eq_bounds cs else b # eq_bounds cs)"
  by (simp_all add: eq_bounds_def is_ub_def)

lemma ub_rows_append: "ub_rows (xs @ ys) = ub_rows xs @ ub_rows ys"
  by (simp add: ub_rows_def)

lemma ub_bounds_append: "ub_bounds (xs @ ys) = ub_bounds xs @ ub_bounds ys"
  by (simp add: ub_bounds_def)

lemma eq_rows_append: "eq_rows (xs @ ys) = eq_rows xs @ eq_rows ys"
  by (simp add: eq_rows_def)

lemma eq_bounds_append: "eq_bounds (xs @ ys) = eq_bounds xs @ eq_bounds ys"
  by (simp add: eq_bounds_def)

lemma length_ub: "length (ub_bounds cs) = length (ub_rows cs)"
  by (simp add: ub_rows_def ub_bounds_def)

lemma length_eq: "length (eq_bounds cs) = length (eq_rows cs)"
  by (simp add: eq_rows_def eq_bounds_def)

lemma read_entries_parses:
  "list_all (parses pf) es \<Longrightarrow> read_entries pf es = Inr (map (\<lambda>e. the (pf e)) es)"
  by (induction es) (auto simp: parses_def)

lemma read_row_parses:
  assumes "i < length ces" and "\<forall>j\<in>set js. j < length (ces ! i) \<and> parses pf (ces ! i ! j)"
  shows "read_row pf ces i js = Inr (map (\<lambda>j. the (pf (ces ! i ! j))) js)"
  using assms by (induction js) (auto simp: index_def parses_def)

lemma map_nth_take: "n \<le> length row \<Longrightarrow> map (\<lambda>j. f (row ! j)) [0 ..< n] = map f (take n row)"
  by (simp add: list_eq_iff_nth_eq)

lemma gui_readable_row:
  assumes "gui_readable pf st" and "i < nat (num_constraints st)"
  shows "i < length (constraint_entries st)"
    and "i < length (bound_entries st)"
    and "i < length (type_combos st)"
    and "nat (num_variables st) \<le> length (constraint_entries st ! i)"
    and "list_all (parses pf) (take (nat (num_variables st)) (constraint_entries st ! i))"
    and "parses pf (bound_entries st ! i)"
proof -
  let ?nc = "nat (num_constraints st)"
  from assms show a: "i < length (constraint_entries st)"
    and b: "i < length (bound_entries st)" and "i < length (type_combos st)"
    by (simp_all add: gui_readable_def)
  from a assms(2) have "constraint_entries st ! i \<in> set (take ?nc (constraint_entries st))"
    by (metis in_set_conv_nth length_take min_less_iff_conj nth_take)
  with assms(1) show "nat (num_variables st) \<le> length (constraint_entries st ! i)"
    and "list_all (parses pf) (take (nat (num_variables st)) (constraint_entries st ! i))"
    by (simp_all add: gui_readable_def list_all_iff)
  from b assms(2) have "bound_entries st ! i \<in> set (take ?nc (bound_entries st))"
    by (metis in_set_conv_nth length_take min_less_iff_conj nth_take)
  with assms(1) show "parses pf (bound_entries st ! i)"
    by (simp add: gui_readable_def list_all_iff)
qed

lemma read_row_readable:
  assumes "gui_readable pf st" and "i < nat (num_constraints st)"
  shows "read_row pf (constraint_entries st) i [0 ..< nat (num_variables st)]
         = Inr (fst (gui_constraint pf st i))"
proof -
  let ?row = "constraint_entries st ! i" and ?n = "nat (num_variables st)"
  note r = gui_readable_row [OF assms]
  have "\<forall>j\<in>set [0 ..< ?n]. j < length ?row \<and> parses pf (?row ! j)"
  proof
    fix j assume "j \<in> set [0 ..< ?n]"
    then have j: "j < ?n" by simp
    with r(4) have "j < length ?row" by simp
    moreover from r(5) j r(4) have "parses pf (take ?n ?row ! j)"
      by (simp add: list_all_length)
    ultimately show "j < length ?row \<and> parses pf (?row ! j)" using j by simp
  qed
  with r(1) have "read_row pf (constraint_entries st) i [0 ..< ?n]
      = Inr (map (\<lambda>j. the (pf (?row ! j))) [0 ..< ?n])"
    by (rule read_row_parses)
  also have "map (\<lambda>j. the (pf (?row ! j))) [0 ..< ?n] = map (\<lambda>e. the (pf e)) (take ?n ?row)"
    using r(4) by (rule map_nth_take)
  finally show ?thesis by (simp add: gui_constraint_def)
qed

lemma constraint_loop_readable:
  assumes "gui_readable pf st" and "\<forall>i\<in>set is. i < nat (num_constraints st)"
  shows "constraint_loop pf st is (Aub, bub, Aeq, beq)
         = Inr (Aub @ ub_rows (map (gui_constraint pf st) is),
                bub @ ub_bounds (map (gui_constraint pf st) is),
                Aeq @ eq_rows (map (gui_constraint pf st) is),
                beq @ eq_bounds (map (gui_constraint pf st) is))"
  using assms(2)
proof (induction "is" arbitrary: Aub bub Aeq beq)
  case Nil
  then show ?case by (simp add: ub_rows_simps ub_bounds_simps eq_rows_simps eq_bounds_simps)
next
  case (Cons i "is")
  then have i: "i < nat (num_constraints st)" by simp
  note r = gui_readable_row [OF assms(1) i]
  obtain a t b where g: "gui_constraint pf st i = (a, t, b)" by (cases "gui_constraint pf st i")
  then have t: "type_combos st ! i = t" and b: "the (pf (bound_entries st ! i)) = b"
    by (simp_all add: gui_constraint_def)
  from r(6) b have pb: "pf (bound_entries st ! i) = Some b" by (auto simp: parses_def)
  have row: "read_row pf (constraint_entries st) i [0 ..< nat (num_variables st)] = Inr a"
    using read_row_readable [OF assms(1) i] g by simp
  from Cons.prems have rest: "\<forall>i\<in>set is. i < nat (num_constraints st)" by simp
  show ?case
    using r(2) r(3)
    by (simp add: row index_def pb t g add_constraint_def Cons.IH [OF rest]
        ub_rows_simps ub_bounds_simps eq_rows_simps eq_bounds_simps)
qed

lemma solve_args_readable:
  assumes "gui_readable pf st"
  shows "solve_args pf st =
     Inr \<lparr> c = (if objective_type st = ''maximize'' then map uminus (gui_objective pf st)
                else gui_objective pf st),
           A_ub = array_or_None (ub_rows (gui_constraints pf st)),
           b_ub = array_or_None (ub_bounds (gui_constraints pf st)),
           A_eq = array_or_None (eq_rows (gui_constraints pf st)),
           b_eq = array_or_None (eq_bounds (gui_constraints pf st)),
           bounds = replicate (length (obj_entries st)) (0, None) \<rparr>"
proof -
  from assms have "read_entries pf (obj_entries st) = Inr (gui_objective pf st)"
    by (simp add: gui_readable_def read_entries_parses gui_objective_def)
  moreover have "constraint_loop pf st [0 ..< nat (num_constraints st)] ([], [], [], [])
      = Inr (ub_rows (gui_constraints pf st), ub_bounds (gui_constraints pf st),
             eq_rows (gui_constraints pf st), eq_bounds (gui_constraints pf st))"
    using constraint_loop_readable [OF assms, of "[0 ..< nat (num_constraints st)]" "[]" "[]" "[]" "[]"]
    by (simp add: gui_constraints_def)
  ultimately show ?thesis
    by (simp add: solve_args_def gui_objective_def)
qed

lemma read_floats_parses:
  "list_all (parses pf) ls \<Longrightarrow>
   read_floats pf (length ls) (ls @ rest) = Inr (map (\<lambda>e. the (pf e)) ls, rest)"
  by (induction ls) (auto simp: parses_def input_number_def input_line_def)

lemma read_constraints_parses:
  assumes "list_all (\<lambda>(row, t, b). length row = n) tcs"
    and "list_all (\<lambda>(row, t, b). list_all (parses pf) row \<and> parses pf b) tcs"
  shows "read_constraints pf n (length tcs)
           (concat (map (\<lambda>(row, t, b). row @ [t, b]) tcs) @ rest) (Aub, bub, Aeq, beq)
         = Inr ((Aub @ ub_rows (map (\<lambda>(row, t, b). (map (\<lambda>e. the (pf e)) row, strip t, the (pf b))) tcs),
                 bub @ ub_bounds (map (\<lambda>(row, t, b). (map (\<lambda>e. the (pf e)) row, strip t, the (pf b))) tcs),
                 Aeq @ eq_rows (map (\<lambda>(row, t, b). (map (\<lambda>e. the (pf e)) row, strip t, the (pf b))) tcs),
                 beq @ eq_bounds (map (\<lambda>(row, t, b). (map (\<lambda>e. the (pf e)) row, strip t, the (pf b))) tcs)),
                rest)"
  using assms
proof (induction tcs arbitrary: Aub bub Aeq beq)
  case Nil
  then show ?case by (simp add: ub_rows_simps ub_bounds_simps eq_rows_simps eq_bounds_simps)
next
  case (Cons tc tcs)
  obtain row t b where tc: "tc = (row, t, b)" by (cases tc)
  from Cons.prems tc have len: "length row = n" and prow: "list_all (parses pf) row"
    and pb: "parses pf b" by simp_all
  from pb obtain v where v: "pf b = Some v" by (auto simp: parses_def)
  have fl: "read_floats pf n (row @ t # b # concat (map (\<lambda>(row, t, b). row @ [t, b]) tcs) @ rest)
      = Inr (map (\<lambda>e. the (pf e)) row, t # b # concat (map (\<lambda>(row, t, b). row @ [t, b]) tcs) @ rest)"
    using read_floats_parses [OF prow] len by simp
  from Cons.prems have rest1: "list_all (\<lambda>(row, t, b). length row = n) tcs"
    and rest2: "list_all (\<lambda>(row, t, b). list_all (parses pf) row \<and> parses pf b) tcs"
    by (auto simp: list_all_iff)
  show ?case
    by (simp add: tc fl input_line_def input_number_def v add_constraint_def
        Cons.IH [OF rest1 rest2] ub_rows_simps ub_bounds_simps eq_rows_simps eq_bounds_simps)
qed

lemma input_problem_readable:
  assumes "cli_readable pi pf tp"
  shows "input_problem pi pf (transcript tp @ rest) =
     Inr (\<lparr> c = (if prefix ''max'' (lower (t_obj_type tp)) then map uminus (cli_objective pf tp)
                 else cli_objective pf tp),
            A_ub = array_or_None (ub_rows (cli_constraints pf tp)),
            b_ub = array_or_None (ub_bounds (cli_constraints pf tp)),
            A_eq = array_or_None (eq_rows (cli_constraints pf tp)),
            b_eq = array_or_None (eq_bounds (cli_constraints pf tp)),
            maximize = prefix ''max'' (lower (t_obj_type tp)),
            num_vars = the (pi (t_num_vars tp)) \<rparr>, rest)"
proof -
  from assms obtain n m where n: "pi (t_num_vars tp) = Some n" and m: "pi (t_num_constraints tp) = Some m"
    and ln: "length (t_objective tp) = nat n"
    and lrows: "list_all (\<lambda>(row, t, b). length row = nat n) (t_constraints tp)"
    and lm: "length (t_constraints tp) = nat m"
    and pobj: "list_all (parses pf) (t_objective tp)"
    and pcs: "list_all (\<lambda>(row, t, b). list_all (parses pf) row \<and> parses pf b) (t_constraints tp)"
    by (auto simp: cli_readable_def split: option.splits)
  have fl: "read_floats pf (nat n)
        (t_objective tp @ concat (map (\<lambda>(row, t, b). row @ [t, b]) (t_constraints tp)) @ rest)
      = Inr (cli_objective pf tp, concat (map (\<lambda>(row, t, b). row @ [t, b]) (t_constraints tp)) @ rest)"
    using read_floats_parses [OF pobj] ln by (simp add: cli_objective_def)
  have cs: "read_constraints pf (nat n) (nat m)
        (concat (map (\<lambda>(row, t, b). row @ [t, b]) (t_constraints tp)) @ rest) ([], [], [], [])
      = Inr ((ub_rows (cli_constraints pf tp), ub_bounds (cli_constraints pf tp),
              eq_rows (cli_constraints pf tp), eq_bounds (cli_constraints pf tp)), rest)"
    using read_constraints_parses [OF lrows pcs, of rest "[]" "[]" "[]" "[]"] lm
    by (simp add: cli_constraints_def)
  show ?thesis
    by (simp add: input_problem_def transcript_def input_number_def input_line_def n m fl cs)
qed

text \<open>The worked examples, read.\<close>

lemma transportation_form_readable: "gui_readable decimal transportation_form"
  by (simp add: gui_readable_def transportation_form_def blank_form_def parses_def decimal_def)

lemma transportation_form_constraints:
  "gui_constraints decimal transportation_form = [([1, 1, 1], ''>='', 100), ([2, 1, 3], ''<='', 200)]"
  by (simp add: gui_constraints_def gui_constraint_def transportation_form_def blank_form_def
      decimal_def upt_rec)

lemma transportation_typed_readable: "cli_readable decimal decimal transportation_typed"
  by (simp add: cli_readable_def transportation_typed_def parses_def decimal_def)

lemma strip_geq: "strip '' >='' = ''>=''"
  by code_simp

lemma strip_ops: "strip ''<='' = ''<=''" "strip ''>='' = ''>=''" "strip ''='' = ''=''" "strip ''=<'' = ''=<''"
  by code_simp+

lemma transportation_typed_constraints:
  "cli_constraints decimal transportation_typed = [([1, 1, 1], ''>='', 100), ([2, 1, 3], ''<='', 200)]"
  by (simp add: cli_constraints_def transportation_typed_def decimal_def strip_geq strip_ops)

lemma mixed_form_readable: "gui_readable decimal mixed_form"
  by (simp add: gui_readable_def mixed_form_def blank_form_def parses_def decimal_def)

lemma mixed_form_constraints:
  "gui_constraints decimal mixed_form = [([1, 1], ''<='', 80), ([1, - 1], ''='', 0), ([2, 5], ''=<'', 7)]"
  by (simp add: gui_constraints_def gui_constraint_def mixed_form_def blank_form_def
      decimal_def upt_rec)

lemma mixed_typed_readable: "cli_readable decimal decimal mixed_typed"
  by (simp add: cli_readable_def mixed_typed_def parses_def decimal_def)

lemma mixed_typed_constraints:
  "cli_constraints decimal mixed_typed = [([1, 1], ''<='', 80), ([1, - 1], ''='', 0), ([2, 5], ''=<'', 7)]"
  by (simp add: cli_constraints_def mixed_typed_def decimal_def strip_ops)

text \<open>Replacing an operator text by its reading changes nothing.\<close>

lemma add_constraint_as_equal:
  "add_constraint acc r (as_equal t) b = add_constraint acc r t b"
  by (cases acc) (auto simp: add_constraint_def as_equal_def is_ub_def)

lemma constraint_loop_as_equal:
  "constraint_loop pf (st\<lparr>type_combos := map as_equal (type_combos st)\<rparr>) is acc
   = constraint_loop pf st is acc"
  by (induction "is" arbitrary: acc)
    (auto simp: index_def add_constraint_as_equal split: sum.splits option.splits)

lemma solve_args_as_equal:
  "solve_args pf (st\<lparr>type_combos := map as_equal (type_combos st)\<rparr>) = solve_args pf st"
  by (simp add: solve_args_def constraint_loop_as_equal Let_def split: sum.splits)

lemma strip_as_equal: "strip (as_equal t) = as_equal t"
  by (auto simp: as_equal_def is_ub_def strip_ops)

lemma rows_as_equal:
  "ub_rows (map (\<lambda>(a, t, b). (a, as_equal t, b)) cs) = ub_rows cs"
  "ub_bounds (map (\<lambda>(a, t, b). (a, as_equal t, b)) cs) = ub_bounds cs"
  "eq_rows (map (\<lambda>(a, t, b). (a, as_equal t, b)) cs) = eq_rows cs"
  "eq_bounds (map (\<lambda>(a, t, b). (a, as_equal t, b)) cs) = eq_bounds cs"
  by (induction cs)
    (auto simp: ub_rows_simps ub_bounds_simps eq_rows_simps eq_bounds_simps as_equal_def is_ub_def)

lemma cli_readable_as_equal:
  "cli_readable pi pf (typed_as_equal tp) = cli_readable pi pf tp"
  by (auto simp: cli_readable_def typed_as_equal_def list_all_iff split: option.splits)

lemma cli_constraints_as_equal:
  "cli_constraints pf (typed_as_equal tp)
   = map (\<lambda>(a, t, b). (a, as_equal t, b)) (cli_constraints pf tp)"
  by (auto simp: cli_constraints_def typed_as_equal_def strip_as_equal)

lemma input_problem_as_equal:
  assumes "cli_readable pi pf tp"
  shows "input_problem pi pf (transcript (typed_as_equal tp) @ rest)
         = input_problem pi pf (transcript tp @ rest)"
proof -
  from assms have "cli_readable pi pf (typed_as_equal tp)"
    by (simp add: cli_readable_as_equal)
  then show ?thesis
    using assms
    by (simp add: input_problem_readable cli_constraints_as_equal rows_as_equal)
      (simp add: typed_as_equal_def cli_objective_def)
qed

text \<open>The solver calls of a run, and when a kind of array is empty.\<close>

lemma linprog_calls_append: "linprog_calls (xs @ ys) = linprog_calls xs @ linprog_calls ys"
  by (induction xs rule: linprog_calls.induct) simp_all

lemma linprog_calls_prints: "linprog_calls (map (\<lambda>(i, v). Print (f i v)) zs) = []"
  by (induction zs) auto

lemma linprog_calls_display: "linprog_calls (fst (cli_display_results p r)) = []"
  by (simp add: cli_display_results_def Let_def linprog_calls_append linprog_calls_prints
      case_prod_beta split: option.splits)

lemma linprog_calls_solve:
  "linprog_calls (solve linprog p)
   = [\<lparr> c = c p, A_ub = A_ub p, b_ub = b_ub p, A_eq = A_eq p, b_eq = b_eq p,
        bounds = replicate (nat (num_vars p)) (0, None) \<rparr>]"
proof -
  have "linprog_calls out = []" if "cli_display_results p r = (out, e)" for r out e
    using linprog_calls_display [of p r] that by simp
  then show ?thesis
    by (auto simp: solve_def Let_def linprog_calls_append split: sum.splits prod.splits option.splits)
qed

lemma linprog_calls_solve_problem:
  "linprog_calls (snd (solve_problem pf linprog st))
   = (case solve_args pf st of Inl ex \<Rightarrow> [] | Inr args \<Rightarrow> [args])"
  by (simp add: solve_problem_def split: sum.splits prod.splits option.splits)

lemma ub_rows_empty:
  "ub_rows cs = [] \<longleftrightarrow> \<not> list_ex (\<lambda>(a, t, b). t = ''<='' \<or> t = ''>='') cs"
  "ub_bounds cs = [] \<longleftrightarrow> \<not> list_ex (\<lambda>(a, t, b). t = ''<='' \<or> t = ''>='') cs"
  by (auto simp: ub_rows_def ub_bounds_def is_ub_def filter_empty_conv list_ex_iff)

lemma eq_rows_empty:
  "eq_rows cs = [] \<longleftrightarrow> \<not> list_ex (\<lambda>(a, t, b). t \<noteq> ''<='' \<and> t \<noteq> ''>='') cs"
  "eq_bounds cs = [] \<longleftrightarrow> \<not> list_ex (\<lambda>(a, t, b). t \<noteq> ''<='' \<and> t \<noteq> ''>='') cs"
  by (auto simp: eq_rows_def eq_bounds_def is_ub_def filter_empty_conv list_ex_iff)

lemma three_operators:
  assumes "list_all (\<lambda>(a, t, b). t = ''<='' \<or> t = ''>='' \<or> t = ''='') cs"
  shows "list_ex (\<lambda>(a, t, b). t \<noteq> ''<='' \<and> t \<noteq> ''>='') cs
         \<longleftrightarrow> list_ex (\<lambda>(a, t, b). t = ''='') cs"
  using assms by (induction cs) auto

text \<open>The numbers in a report.\<close>

lemma line_floats_simps:
  "line_floats [] = []"
  "line_floats (Float6 v # l) = v # line_floats l"
  "line_floats (Str s # l) = line_floats l"
  "line_floats (Num n # l) = line_floats l"
  "line_floats (Exc e # l) = line_floats l"
  "line_floats (Title s # l) = line_floats l"
  "line_floats (AllNonNeg xs # l) = line_floats l"
  by (simp_all add: line_floats_def)

lemma line_floats_append: "line_floats (l @ m) = line_floats l @ line_floats m"
  by (simp add: line_floats_def)

lemma printed_floats_simps:
  "printed_floats [] = []"
  "printed_floats (Print l # es) = line_floats l @ printed_floats es"
  "printed_floats (Linprog args # es) = printed_floats es"
  by (simp_all add: printed_floats_def)

lemma printed_floats_append: "printed_floats (es @ fs) = printed_floats es @ printed_floats fs"
  by (simp add: printed_floats_def)

lemma line_floats_solution:
  "line_floats (concat (map (\<lambda>(i, value).
       [Str ''  x'', Num (int i + 1), Str '' = '', Float6 value, Str nl]) (enumerate k xs))) = xs"
  by (induction xs arbitrary: k) (simp_all add: line_floats_simps line_floats_append)

lemma printed_floats_solution:
  "printed_floats (map (\<lambda>(i, value).
       Print [Str ''  x'', Num (int i + 1), Str '' = '', Float6 value]) (enumerate k xs)) = xs"
  by (induction xs arbitrary: k) (simp_all add: line_floats_simps printed_floats_simps)

text \<open>The loops of saving and loading, on lists that are long enough.\<close>

lemma load_objective_ok:
  "k + length cs \<le> length (obj_entries st) \<Longrightarrow>
   load_objective (enumerate k cs) st
   = (st\<lparr>obj_entries := take k (obj_entries st) @ cs @ drop (k + length cs) (obj_entries st)\<rparr>, None)"
proof (induction cs arbitrary: k st)
  case Nil
  then show ?case by simp
next
  case (Cons x cs)
  then have k: "k < length (obj_entries st)" by simp
  let ?st = "st\<lparr>obj_entries := (obj_entries st)[k := x]\<rparr>"
  from Cons.prems have "Suc k + length cs \<le> length (obj_entries ?st)" by simp
  from Cons.IH [OF this] k show ?case
    by (simp add: take_Suc_conv_app_nth)
qed

lemma load_row_ok:
  "i < length (constraint_entries st) \<Longrightarrow> k + length cs \<le> length (constraint_entries st ! i) \<Longrightarrow>
   load_row i (enumerate k cs) st
   = (st\<lparr>constraint_entries := (constraint_entries st)
            [i := take k (constraint_entries st ! i) @ cs
                  @ drop (k + length cs) (constraint_entries st ! i)]\<rparr>, None)"
proof (induction cs arbitrary: k st)
  case Nil
  then show ?case by simp
next
  case (Cons x cs)
  let ?row = "constraint_entries st ! i"
  from Cons.prems have k: "k < length ?row" by simp
  let ?st = "st\<lparr>constraint_entries := (constraint_entries st)[i := ?row[k := x]]\<rparr>"
  from Cons.prems have "i < length (constraint_entries ?st)"
    and "Suc k + length cs \<le> length (constraint_entries ?st ! i)" by simp_all
  from Cons.IH [OF this] k Cons.prems(1) show ?case
    by (simp add: take_Suc_conv_app_nth)
qed

lemma load_constraints_ok:
  assumes "k + length cons \<le> length (constraint_entries st)"
    and "k + length cons \<le> length (type_combos st)"
    and "k + length cons \<le> length (bound_entries st)"
    and "\<forall>j < length cons. length (coeffs (cons ! j)) = length (constraint_entries st ! (k + j))"
  shows "load_constraints (enumerate k cons) st
   = (st\<lparr>constraint_entries :=
            take k (constraint_entries st) @ map coeffs cons
            @ drop (k + length cons) (constraint_entries st),
          type_combos :=
            take k (type_combos st) @ map ctype cons @ drop (k + length cons) (type_combos st),
          bound_entries :=
            take k (bound_entries st) @ map bound cons
            @ drop (k + length cons) (bound_entries st)\<rparr>, None)"
  using assms
proof (induction cons arbitrary: k st)
  case Nil
  then show ?case by simp
next
  case (Cons x cons)
  let ?ces = "constraint_entries st" and ?tcs = "type_combos st" and ?bes = "bound_entries st"
  from Cons.prems have k: "k < length ?ces" "k < length ?tcs" "k < length ?bes" by simp_all
  from Cons.prems(4) have len: "length (coeffs x) = length (?ces ! k)" by force
  have row: "load_row k (enumerate 0 (coeffs x)) st
      = (st\<lparr>constraint_entries := ?ces[k := coeffs x]\<rparr>, None)"
    using load_row_ok [of k st 0 "coeffs x"] k(1) len by simp
  let ?st = "st\<lparr>constraint_entries := ?ces[k := coeffs x],
                type_combos := ?tcs[k := ctype x], bound_entries := ?bes[k := bound x]\<rparr>"
  have p1: "Suc k + length cons \<le> length (constraint_entries ?st)"
    and p2: "Suc k + length cons \<le> length (type_combos ?st)"
    and p3: "Suc k + length cons \<le> length (bound_entries ?st)"
    using Cons.prems by simp_all
  have p4: "\<forall>j < length cons. length (coeffs (cons ! j)) = length (constraint_entries ?st ! (Suc k + j))"
  proof (intro allI impI)
    fix j assume j: "j < length cons"
    with Cons.prems(4) have "length (coeffs ((x # cons) ! Suc j)) = length (?ces ! (k + Suc j))"
      by (metis Suc_less_eq length_Cons)
    then show "length (coeffs (cons ! j)) = length (constraint_entries ?st ! (Suc k + j))"
      by simp
  qed
  show ?case
    using Cons.IH [OF p1 p2 p3 p4] k
    by (simp add: row Let_def take_Suc_conv_app_nth)
qed

lemma save_constraints_ok:
  "\<forall>i\<in>set is. i < length (constraint_entries st) \<and> i < length (type_combos st)
      \<and> i < length (bound_entries st) \<Longrightarrow>
   save_constraints st is
   = Inr (map (\<lambda>i. \<lparr>coeffs = constraint_entries st ! i, ctype = type_combos st ! i,
                     bound = bound_entries st ! i\<rparr>) is)"
  by (induction "is") (simp_all add: index_def)

lemma load_consistent_document:
  assumes first: "filter (\<lambda>(f, x). saved_name f) dir = (f, Document pd) # others"
    and "length (d_objective_coeffs pd) = nat (d_num_variables pd)"
    and "length (d_constraints pd) = nat (d_num_constraints pd)"
    and rows: "\<forall>cd\<in>set (d_constraints pd). length (coeffs cd) = nat (d_num_variables pd)"
  shows "gui_load_problem dir st0
   = (st0\<lparr>num_variables := d_num_variables pd,
          num_constraints := d_num_constraints pd,
          objective_type := d_objective_type pd,
          obj_entries := d_objective_coeffs pd,
          constraint_entries := map coeffs (d_constraints pd),
          type_combos := map ctype (d_constraints pd),
          bound_entries := map bound (d_constraints pd)\<rparr>,
      [Showinfo [Str ''Problem loaded from '', Str f]])"
proof -
  let ?n = "nat (d_num_variables pd)" and ?m = "nat (d_num_constraints pd)"
  let ?st1 = "update_problem_size
                (st0\<lparr>num_variables := d_num_variables pd,
                     num_constraints := d_num_constraints pd,
                     objective_type := d_objective_type pd\<rparr>)"
  have o: "load_objective (enumerate 0 (d_objective_coeffs pd)) ?st1
      = (?st1\<lparr>obj_entries := d_objective_coeffs pd\<rparr>, None)"
    using load_objective_ok [of 0 "d_objective_coeffs pd" ?st1] assms(2)
    by (simp add: update_problem_size_def)
  let ?st2 = "?st1\<lparr>obj_entries := d_objective_coeffs pd\<rparr>"
  have c1: "0 + length (d_constraints pd) \<le> length (constraint_entries ?st2)"
    and c2: "0 + length (d_constraints pd) \<le> length (type_combos ?st2)"
    and c3: "0 + length (d_constraints pd) \<le> length (bound_entries ?st2)"
    using assms(3) by (simp_all add: update_problem_size_def)
  have c4: "\<forall>j < length (d_constraints pd).
      length (coeffs (d_constraints pd ! j)) = length (constraint_entries ?st2 ! (0 + j))"
    using rows assms(3) by (simp add: update_problem_size_def)
  have c: "load_constraints (enumerate 0 (d_constraints pd)) ?st2
      = (?st2\<lparr>constraint_entries := map coeffs (d_constraints pd),
               type_combos := map ctype (d_constraints pd),
               bound_entries := map bound (d_constraints pd)\<rparr>, None)"
    using load_constraints_ok [OF c1 c2 c3 c4] assms(3)
    by (simp add: update_problem_size_def)
  show ?thesis
    by (simp add: gui_load_problem_def first Let_def o c) (simp add: update_problem_size_def)
qed

text \<open>The file that a save leaves first among the saved problems.\<close>

lemma saved_name_save_filename: "saved_name (save_filename st)"
proof -
  have "suffix ''.json'' (save_filename st)"
    unfolding save_filename_def
    by (rule suffixI [where zs = "''lp_problem_'' @ str_int (num_variables st) @ ''vars_''
          @ str_int (num_constraints st) @ ''cons''"]) simp
  moreover have "prefix ''lp_problem'' (save_filename st)"
    by (simp add: save_filename_def)
  ultimately show ?thesis by (simp add: saved_name_def)
qed

lemma filter_write_file:
  assumes "saved_name f" and "list_all (\<lambda>(g, x). saved_name g \<longrightarrow> g = f) dir"
  shows "\<exists>others. filter (\<lambda>(g, x). saved_name g) (write_file f d dir) = (f, Document d) # others"
proof (cases "f \<in> set (map fst dir)")
  case True
  let ?h = "\<lambda>(g, x). if g = f then (g, Document d) else (g, x)"
  let ?l = "filter (\<lambda>(g, x). saved_name g) (map ?h dir)"
  from True obtain x where "(f, x) \<in> set dir" by auto
  then have "?h (f, x) \<in> set (map ?h dir)" by (metis (no_types, lifting) imageI set_map)
  with assms(1) have "(f, Document d) \<in> set ?l" by simp
  then obtain y others where l: "?l = y # others" by (cases ?l) auto
  then have "y \<in> set ?l" by simp
  then have "y = (f, Document d)"
    using assms(2) by (auto simp: list_all_iff split: if_splits)
  with l True show ?thesis by (auto simp: write_file_def)
next
  case False
  have "filter (\<lambda>(g, x). saved_name g) dir = []"
    using assms(2) False by (force simp: filter_empty_conv list_all_iff)
  with False assms(1) show ?thesis by (simp add: write_file_def)
qed

lemma map_of_write_file: "map_of (write_file f d dir) f = Some (Document d)"
proof (cases "f \<in> set (map fst dir)")
  case True
  have "f \<in> set (map fst xs) \<Longrightarrow>
      map_of (map (\<lambda>(g, x). if g = f then (g, Document d) else (g, x)) xs) f = Some (Document d)"
    for xs :: "(string \<times> 'a content) list"
    by (induction xs) auto
  with True show ?thesis by (simp add: write_file_def)
next
  case False
  then have "map_of dir f = None" by (simp add: map_of_eq_None_iff)
  with False show ?thesis by (simp add: write_file_def map_add_def)
qed

lemma np_array_rectangular: "rectangular v \<Longrightarrow> load_array v = Inr v"
  by (cases v) (simp_all add: rectangular_def load_array_def np_array_def)

lemma gui_save_problem_consistent:
  assumes "gui_consistent st"
  shows "gui_save_problem st dir
   = (write_file (save_filename st)
        \<lparr>d_num_variables = num_variables st, d_num_constraints = num_constraints st,
         d_objective_type = objective_type st, d_objective_coeffs = obj_entries st,
         d_constraints = map (\<lambda>i. \<lparr>coeffs = constraint_entries st ! i,
             ctype = type_combos st ! i, bound = bound_entries st ! i\<rparr>)
           [0 ..< nat (num_constraints st)]\<rparr> dir,
      [Showinfo [Str ''Problem saved as '', Str (save_filename st)]])"
proof -
  from assms have "\<forall>i\<in>set [0 ..< nat (num_constraints st)].
      i < length (constraint_entries st) \<and> i < length (type_combos st)
      \<and> i < length (bound_entries st)"
    by (simp add: gui_consistent_def)
  then show ?thesis
    by (simp add: gui_save_problem_def save_constraints_ok)
qed

lemma map_nth_all: "length xs = n \<Longrightarrow> map (\<lambda>i. xs ! i) [0 ..< n] = xs"
  by (auto simp: map_nth)

lemma str_int_small: "str_int 0 = ''0''" "str_int 1 = ''1''" "str_int 2 = ''2''" "str_int 3 = ''3''"
  by code_simp+

lemma saved_name_examples:
  "saved_name ''lp_problem_1vars_0cons.json''"
  "saved_name ''lp_problem_1vars_2cons.json''"
  "saved_name ''lp_problem_2vars_2cons.json''"
  "saved_name ''lp_problem_3vars_2cons.json''"
  "\<not> saved_name ''notes.txt''"
  by code_simp+

text \<open>The shape of what the prompts and the form produce.\<close>

lemma read_floats_length: "read_floats pf k stdin = Inr (vs, rest) \<Longrightarrow> length vs = k"
  by (induction k arbitrary: stdin vs rest) (auto split: sum.splits prod.splits)

lemma add_constraint_rows:
  assumes "add_constraint (Aub, bub, Aeq, beq) r t b = (Aub', bub', Aeq', beq')"
    and "length r = n"
    and "list_all (\<lambda>row. length row = n) (Aub @ Aeq)"
  shows "list_all (\<lambda>row. length row = n) (Aub' @ Aeq')"
  using assms by (auto simp: add_constraint_def split: if_splits)

lemma read_constraints_rows:
  assumes "read_constraints pf n k stdin (Aub, bub, Aeq, beq) = Inr ((Aub', bub', Aeq', beq'), rest)"
    and "list_all (\<lambda>row. length row = n) (Aub @ Aeq)"
  shows "list_all (\<lambda>row. length row = n) (Aub' @ Aeq')"
  using assms
proof (induction k arbitrary: stdin Aub bub Aeq beq)
  case 0
  then show ?case by simp
next
  case (Suc k)
  from Suc.prems(1) obtain r in1 l in2 b in3
    where r: "read_floats pf n stdin = Inr (r, in1)"
      and "input_line in1 = Inr (l, in2)" and "input_number pf in2 = Inr (b, in3)"
      and rest: "read_constraints pf n k in3 (add_constraint (Aub, bub, Aeq, beq) r (strip l) b)
                 = Inr ((Aub', bub', Aeq', beq'), rest)"
    by (auto simp: Let_def split: sum.splits prod.splits)
  obtain Aub1 bub1 Aeq1 beq1
    where a: "add_constraint (Aub, bub, Aeq, beq) r (strip l) b = (Aub1, bub1, Aeq1, beq1)"
    by (cases "add_constraint (Aub, bub, Aeq, beq) r (strip l) b") auto
  from read_floats_length [OF r] have "length r = n" .
  from add_constraint_rows [OF a this Suc.prems(2)]
  have "list_all (\<lambda>row. length row = n) (Aub1 @ Aeq1)" .
  with Suc.IH [of in3 Aub1 bub1 Aeq1 beq1] rest a show ?case by simp
qed

lemma rows_of_array_or_None: "rows_of (array_or_None xs) = xs"
  by (simp add: rows_of_def array_or_None_def)

lemma input_problem_shape:
  assumes "input_problem pi pf stdin = Inr (p, rest)"
  shows "length (c p) = nat (num_vars p)
         \<and> list_all (\<lambda>row. length row = nat (num_vars p)) (rows_of (A_ub p) @ rows_of (A_eq p))"
proof -
  from assms obtain n in1 m in2 l in3 c0 in4 Aub bub Aeq beq
    where "input_number pi stdin = Inr (n, in1)"
      and c0: "read_floats pf (nat n) in3 = Inr (c0, in4)"
      and cs: "read_constraints pf (nat n) (nat m) in4 ([], [], [], []) = Inr ((Aub, bub, Aeq, beq), rest)"
      and p: "p = \<lparr> c = (if prefix ''max'' (lower l) then map uminus c0 else c0),
                 A_ub = array_or_None Aub, b_ub = array_or_None bub,
                 A_eq = array_or_None Aeq, b_eq = array_or_None beq,
                 maximize = prefix ''max'' (lower l), num_vars = n \<rparr>"
    by (auto simp: input_problem_def Let_def split: sum.splits prod.splits)
  from read_constraints_rows [OF cs] have "list_all (\<lambda>row. length row = nat n) (Aub @ Aeq)"
    by simp
  with read_floats_length [OF c0] p show ?thesis
    by (simp add: rows_of_array_or_None)
qed

lemma gui_constraints_row_length:
  assumes "gui_readable pf st" and "(a, t, b) \<in> set (gui_constraints pf st)"
  shows "length a = nat (num_variables st)"
proof -
  from assms(2) obtain i where i: "i < nat (num_constraints st)"
    and "gui_constraint pf st i = (a, t, b)"
    by (auto simp: gui_constraints_def)
  then have "a = map (\<lambda>e. the (pf e)) (take (nat (num_variables st)) (constraint_entries st ! i))"
    by (simp add: gui_constraint_def)
  with gui_readable_row(4) [OF assms(1) i] show ?thesis by simp
qed

lemma gui_rows_length:
  assumes "gui_readable pf st"
  shows "list_all (\<lambda>row. length row = nat (num_variables st))
           (ub_rows (gui_constraints pf st) @ eq_rows (gui_constraints pf st))"
  using gui_constraints_row_length [OF assms]
  by (auto simp: list_all_iff ub_rows_def eq_rows_def)

lemma production_typed_readable: "cli_readable decimal decimal production_typed"
  by (simp add: cli_readable_def production_typed_def parses_def decimal_def)

lemma production_typed_input:
  "input_problem decimal decimal (transcript production_typed @ []) = Inr (production_problem, [])"
proof -
  have "prefix ''max'' (lower ''Max'')" by code_simp
  then show ?thesis
    unfolding input_problem_readable [OF production_typed_readable]
    by (simp add: production_typed_def production_problem_def cli_objective_def cli_constraints_def
        decimal_def strip_ops ub_rows_simps ub_bounds_simps eq_rows_simps eq_bounds_simps
        array_or_None_def)
qed

lemma stale_form_readable: "gui_readable decimal stale_form"
  by (simp add: gui_readable_def stale_form_def blank_form_def parses_def decimal_def)

section \<open>Normalisation\<close>

text \<open>
  Claim C3. The vector \<open>c\<close> that normalisation produces is the list of objective
  coefficients, element for element, when the sense is to minimise, and their
  element-wise negation when it is to maximise. The form maximises exactly when its
  radio variable is \<^verbatim>\<open>"maximize"\<close>; the command line maximises exactly when the answer,
  in lower case, starts with \<^verbatim>\<open>max\<close>.
\<close>

theorem objective_sign:
  "(gui_readable pf st \<longrightarrow>
      (\<exists>args. solve_args pf st = Inr args
         \<and> c args = (if objective_type st = ''maximize'' then map uminus (gui_objective pf st)
                     else gui_objective pf st)))
   \<and> (cli_readable pi pf tp \<longrightarrow>
      (\<exists>p. input_problem pi pf (transcript tp @ rest) = Inr (p, rest)
         \<and> maximize p = prefix ''max'' (lower (t_obj_type tp))
         \<and> c p = (if maximize p then map uminus (cli_objective pf tp) else cli_objective pf tp)))"
  by (simp add: solve_args_readable input_problem_readable)

theorem objective_sign_witness:
  "gui_readable decimal transportation_form
   \<and> (\<exists>args. solve_args decimal transportation_form = Inr args \<and> c args = [2, 3, 1])
   \<and> cli_readable decimal decimal production_typed
   \<and> (\<exists>p. input_problem decimal decimal (transcript production_typed @ []) = Inr (p, [])
         \<and> maximize p \<and> c p = [- 3, - 2])"
proof -
  have g: "gui_readable decimal transportation_form"
    by (simp add: gui_readable_def transportation_form_def blank_form_def parses_def decimal_def)
  have t: "cli_readable decimal decimal production_typed"
    by (simp add: cli_readable_def production_typed_def parses_def decimal_def)
  have go: "gui_objective decimal transportation_form = [2, 3, 1]"
    and gt: "objective_type transportation_form = ''minimize''"
    by (simp_all add: gui_objective_def transportation_form_def blank_form_def decimal_def)
  have co: "cli_objective decimal production_typed = [3, 2]"
    by (simp add: cli_objective_def production_typed_def decimal_def)
  have "prefix ''max'' (lower ''Max'')"
    by code_simp
  then have ct: "prefix ''max'' (lower (t_obj_type production_typed))"
    by (simp add: production_typed_def)
  show ?thesis
    using objective_sign [of decimal transportation_form decimal production_typed "[]"] g t
    by (auto simp: go gt co ct)
qed

text \<open>
  Claim C4. A constraint with operator \<^verbatim>\<open>>=\<close>, coefficients \<open>a\<close> and bound \<open>b\<close>
  contributes to \<open>A_ub\<close> the row \<open>- a\<close> (element-wise) and to \<open>b_ub\<close>, at the same
  position, the entry \<open>- b\<close>: after what the constraints before it contributed and
  before what the later ones do. It contributes nothing to the equality arrays.
\<close>

theorem greater_or_equal_negated:
  "(gui_readable pf st \<and> gui_constraints pf st = pre @ (a, ''>='', b) # post \<longrightarrow>
      (\<exists>args. solve_args pf st = Inr args
         \<and> A_ub args = Some (ub_rows pre @ map uminus a # ub_rows post)
         \<and> b_ub args = Some (ub_bounds pre @ (- b) # ub_bounds post)
         \<and> length (ub_bounds pre) = length (ub_rows pre)
         \<and> A_eq args = array_or_None (eq_rows (pre @ post))
         \<and> b_eq args = array_or_None (eq_bounds (pre @ post))))
   \<and> (cli_readable pi pf tp \<and> cli_constraints pf tp = pre @ (a, ''>='', b) # post \<longrightarrow>
      (\<exists>p. input_problem pi pf (transcript tp @ rest) = Inr (p, rest)
         \<and> A_ub p = Some (ub_rows pre @ map uminus a # ub_rows post)
         \<and> b_ub p = Some (ub_bounds pre @ (- b) # ub_bounds post)
         \<and> length (ub_bounds pre) = length (ub_rows pre)
         \<and> A_eq p = array_or_None (eq_rows (pre @ post))
         \<and> b_eq p = array_or_None (eq_bounds (pre @ post))))"
  by (simp add: solve_args_readable input_problem_readable ub_rows_append ub_bounds_append
      eq_rows_append eq_bounds_append ub_rows_simps ub_bounds_simps eq_rows_simps
      eq_bounds_simps array_or_None_def length_ub)

theorem greater_or_equal_negated_witness:
  "gui_readable decimal transportation_form
   \<and> gui_constraints decimal transportation_form
       = [] @ ([1, 1, 1], ''>='', 100) # [([2, 1, 3], ''<='', 200)]
   \<and> (\<exists>args. solve_args decimal transportation_form = Inr args
         \<and> A_ub args = Some [[- 1, - 1, - 1], [2, 1, 3]]
         \<and> b_ub args = Some [- 100, 200]
         \<and> A_eq args = None \<and> b_eq args = None)
   \<and> cli_readable decimal decimal transportation_typed
   \<and> cli_constraints decimal transportation_typed
       = [] @ ([1, 1, 1], ''>='', 100) # [([2, 1, 3], ''<='', 200)]
   \<and> (\<exists>p. input_problem decimal decimal (transcript transportation_typed @ []) = Inr (p, [])
         \<and> A_ub p = Some [[- 1, - 1, - 1], [2, 1, 3]]
         \<and> b_ub p = Some [- 100, 200]
         \<and> A_eq p = None \<and> b_eq p = None)"
  using greater_or_equal_negated [of decimal transportation_form "[]" "[1, 1, 1]" 100
      "[([2, 1, 3], ''<='', 200)]" decimal transportation_typed "[]"]
    transportation_form_readable transportation_typed_readable
  by (simp add: transportation_form_constraints transportation_typed_constraints
      ub_rows_simps ub_bounds_simps eq_rows_simps eq_bounds_simps array_or_None_def)

text \<open>
  Claim C5. A constraint with operator \<^verbatim>\<open><=\<close> contributes its coefficients and its
  bound, unchanged, to \<open>A_ub\<close> and \<open>b_ub\<close>; a constraint with operator \<^verbatim>\<open>=\<close>
  contributes them, unchanged, to \<open>A_eq\<close> and \<open>b_eq\<close>; in both cases at the position
  that the constraints of the same kind before it determine.
\<close>

theorem less_or_equal_and_equal_unchanged:
  "(gui_readable pf st \<and> gui_constraints pf st = pre @ (a, ''<='', b) # post \<longrightarrow>
      (\<exists>args. solve_args pf st = Inr args
         \<and> A_ub args = Some (ub_rows pre @ a # ub_rows post)
         \<and> b_ub args = Some (ub_bounds pre @ b # ub_bounds post)
         \<and> length (ub_bounds pre) = length (ub_rows pre)))
   \<and> (gui_readable pf st \<and> gui_constraints pf st = pre' @ (a', ''='', b') # post' \<longrightarrow>
      (\<exists>args. solve_args pf st = Inr args
         \<and> A_eq args = Some (eq_rows pre' @ a' # eq_rows post')
         \<and> b_eq args = Some (eq_bounds pre' @ b' # eq_bounds post')
         \<and> length (eq_bounds pre') = length (eq_rows pre')))
   \<and> (cli_readable pi pf tp \<and> cli_constraints pf tp = pre @ (a, ''<='', b) # post \<longrightarrow>
      (\<exists>p. input_problem pi pf (transcript tp @ rest) = Inr (p, rest)
         \<and> A_ub p = Some (ub_rows pre @ a # ub_rows post)
         \<and> b_ub p = Some (ub_bounds pre @ b # ub_bounds post)
         \<and> length (ub_bounds pre) = length (ub_rows pre)))
   \<and> (cli_readable pi pf tp \<and> cli_constraints pf tp = pre' @ (a', ''='', b') # post' \<longrightarrow>
      (\<exists>p. input_problem pi pf (transcript tp @ rest) = Inr (p, rest)
         \<and> A_eq p = Some (eq_rows pre' @ a' # eq_rows post')
         \<and> b_eq p = Some (eq_bounds pre' @ b' # eq_bounds post')
         \<and> length (eq_bounds pre') = length (eq_rows pre')))"
  by (simp add: solve_args_readable input_problem_readable ub_rows_append ub_bounds_append
      eq_rows_append eq_bounds_append ub_rows_simps ub_bounds_simps eq_rows_simps
      eq_bounds_simps array_or_None_def length_ub length_eq)

theorem less_or_equal_and_equal_unchanged_witness:
  "gui_readable decimal mixed_form
   \<and> gui_constraints decimal mixed_form
       = [] @ ([1, 1], ''<='', 80) # [([1, - 1], ''='', 0), ([2, 5], ''=<'', 7)]
   \<and> gui_constraints decimal mixed_form
       = [([1, 1], ''<='', 80)] @ ([1, - 1], ''='', 0) # [([2, 5], ''=<'', 7)]
   \<and> (\<exists>args. solve_args decimal mixed_form = Inr args
         \<and> A_ub args = Some [[1, 1]] \<and> b_ub args = Some [80]
         \<and> A_eq args = Some [[1, - 1], [2, 5]] \<and> b_eq args = Some [0, 7])
   \<and> cli_readable decimal decimal mixed_typed
   \<and> cli_constraints decimal mixed_typed
       = [] @ ([1, 1], ''<='', 80) # [([1, - 1], ''='', 0), ([2, 5], ''=<'', 7)]
   \<and> cli_constraints decimal mixed_typed
       = [([1, 1], ''<='', 80)] @ ([1, - 1], ''='', 0) # [([2, 5], ''=<'', 7)]
   \<and> (\<exists>p. input_problem decimal decimal (transcript mixed_typed @ []) = Inr (p, [])
         \<and> A_ub p = Some [[1, 1]] \<and> b_ub p = Some [80]
         \<and> A_eq p = Some [[1, - 1], [2, 5]] \<and> b_eq p = Some [0, 7])"
  using less_or_equal_and_equal_unchanged [of decimal mixed_form "[]" "[1, 1]" 80
      "[([1, - 1], ''='', 0), ([2, 5], ''=<'', 7)]"
      "[([1, 1], ''<='', 80)]" "[1, - 1]" 0 "[([2, 5], ''=<'', 7)]"
      decimal mixed_typed "[]"]
    mixed_form_readable mixed_typed_readable
  by (auto simp: mixed_form_constraints mixed_typed_constraints
      ub_rows_simps ub_bounds_simps eq_rows_simps eq_bounds_simps)

text \<open>
  Claim C10, as amended. The operator of a constraint is the text of its combobox in
  the form, and on the command line the answer with the white space around it stripped.
  An operator that is neither \<^verbatim>\<open><=\<close> nor \<^verbatim>\<open>>=\<close>, whatever it is, is never rejected:
  the constraint's coefficients and bound go unchanged into \<open>A_eq\<close> and \<open>b_eq\<close>,
  and the result of normalisation is the one obtained with \<^verbatim>\<open>=\<close> in its place.
\<close>

theorem other_operators_read_as_equal:
  "solve_args pf (st\<lparr>type_combos := map as_equal (type_combos st)\<rparr>) = solve_args pf st
   \<and> (gui_readable pf st \<and> gui_constraints pf st = pre @ (a, t, b) # post
        \<and> t \<noteq> ''<='' \<and> t \<noteq> ''>='' \<longrightarrow>
      (\<exists>args. solve_args pf st = Inr args
         \<and> A_eq args = Some (eq_rows pre @ a # eq_rows post)
         \<and> b_eq args = Some (eq_bounds pre @ b # eq_bounds post)
         \<and> length (eq_bounds pre) = length (eq_rows pre)
         \<and> A_ub args = array_or_None (ub_rows (pre @ post))
         \<and> b_ub args = array_or_None (ub_bounds (pre @ post))))
   \<and> (cli_readable pi pf tp \<longrightarrow>
        input_problem pi pf (transcript (typed_as_equal tp) @ rest)
        = input_problem pi pf (transcript tp @ rest))
   \<and> (cli_readable pi pf tp \<and> cli_constraints pf tp = pre @ (a, t, b) # post
        \<and> t \<noteq> ''<='' \<and> t \<noteq> ''>='' \<longrightarrow>
      (\<exists>p. input_problem pi pf (transcript tp @ rest) = Inr (p, rest)
         \<and> A_eq p = Some (eq_rows pre @ a # eq_rows post)
         \<and> b_eq p = Some (eq_bounds pre @ b # eq_bounds post)
         \<and> length (eq_bounds pre) = length (eq_rows pre)
         \<and> A_ub p = array_or_None (ub_rows (pre @ post))
         \<and> b_ub p = array_or_None (ub_bounds (pre @ post))))"
  by (simp add: solve_args_as_equal input_problem_as_equal solve_args_readable
      input_problem_readable ub_rows_append ub_bounds_append eq_rows_append eq_bounds_append
      ub_rows_simps ub_bounds_simps eq_rows_simps eq_bounds_simps array_or_None_def length_eq)

theorem other_operators_read_as_equal_witness:
  "gui_readable decimal mixed_form
   \<and> gui_constraints decimal mixed_form
       = [([1, 1], ''<='', 80), ([1, - 1], ''='', 0)] @ ([2, 5], ''=<'', 7) # []
   \<and> ''=<'' \<noteq> ''<='' \<and> ''=<'' \<noteq> ''>=''
   \<and> solve_args decimal (mixed_form\<lparr>type_combos := [''<='', ''='', ''='']\<rparr>)
       = solve_args decimal mixed_form
   \<and> (\<exists>args. solve_args decimal mixed_form = Inr args
         \<and> A_eq args = Some [[1, - 1], [2, 5]] \<and> b_eq args = Some [0, 7]
         \<and> A_ub args = Some [[1, 1]] \<and> b_ub args = Some [80])
   \<and> cli_readable decimal decimal mixed_typed
   \<and> cli_constraints decimal mixed_typed
       = [([1, 1], ''<='', 80), ([1, - 1], ''='', 0)] @ ([2, 5], ''=<'', 7) # []
   \<and> input_problem decimal decimal
         (transcript (mixed_typed\<lparr>t_constraints :=
              [([''1'', ''1''], ''<='', ''80''), ([''1'', ''-1''], ''='', ''0''),
               ([''2'', ''5''], ''='', ''7'')]\<rparr>) @ [])
       = input_problem decimal decimal (transcript mixed_typed @ [])
   \<and> (\<exists>p. input_problem decimal decimal (transcript mixed_typed @ []) = Inr (p, [])
         \<and> A_eq p = Some [[1, - 1], [2, 5]] \<and> b_eq p = Some [0, 7]
         \<and> A_ub p = Some [[1, 1]] \<and> b_ub p = Some [80])"
proof -
  have t: "map as_equal (type_combos mixed_form) = [''<='', ''='', ''='']"
    by (simp add: mixed_form_def blank_form_def as_equal_def is_ub_def)
  have u: "typed_as_equal mixed_typed
      = mixed_typed\<lparr>t_constraints :=
              [([''1'', ''1''], ''<='', ''80''), ([''1'', ''-1''], ''='', ''0''),
               ([''2'', ''5''], ''='', ''7'')]\<rparr>"
    by (simp add: typed_as_equal_def mixed_typed_def strip_ops as_equal_def is_ub_def)
  show ?thesis
    using other_operators_read_as_equal [of decimal mixed_form
        "[([1, 1], ''<='', 80), ([1, - 1], ''='', 0)]" "[2, 5]" "''=<''" 7 "[]"
        decimal mixed_typed "[]"]
      mixed_form_readable mixed_typed_readable
    by (auto simp: t u mixed_form_constraints mixed_typed_constraints
        ub_rows_simps ub_bounds_simps eq_rows_simps eq_bounds_simps array_or_None_def)
qed

text \<open>
  Claim C10 as stated fails on the command line, which compares the answer only after
  \<^verbatim>\<open>.strip()\<close>: the answer \<^verbatim>\<open>" >="\<close>, with a blank in front, is neither \<^verbatim>\<open>"<="\<close>
  nor \<^verbatim>\<open>">="\<close>, and yet its constraint is filed negated in \<open>A_ub\<close> and \<open>b_ub\<close>
  and nothing reaches the equality arrays. The form does not strip, and files the same
  text as an equality.
\<close>

theorem padded_operator_filed_as_inequality:
  "'' >='' \<noteq> ''<='' \<and> '' >='' \<noteq> ''>=''
   \<and> t_constraints transportation_typed
       = [([''1'', ''1'', ''1''], '' >='', ''100''), ([''2'', ''1'', ''3''], ''<='', ''200'')]
   \<and> input_problem decimal decimal (transcript transportation_typed)
       = Inr (\<lparr> c = [2, 3, 1], A_ub = Some [[- 1, - 1, - 1], [2, 1, 3]],
                b_ub = Some [- 100, 200], A_eq = None, b_eq = None,
                maximize = False, num_vars = 3 \<rparr>, [])
   \<and> solve_args decimal (transportation_form\<lparr>type_combos := ['' >='', ''<='']\<rparr>)
       = Inr \<lparr> c = [2, 3, 1], A_ub = Some [[2, 1, 3]], b_ub = Some [200],
               A_eq = Some [[1, 1, 1]], b_eq = Some [100],
               bounds = [(0, None), (0, None), (0, None)] \<rparr>"
proof -
  have m: "\<not> prefix ''max'' (lower ''min'')"
    by code_simp
  have i: "input_problem decimal decimal (transcript transportation_typed)
       = Inr (\<lparr> c = [2, 3, 1], A_ub = Some [[- 1, - 1, - 1], [2, 1, 3]],
                b_ub = Some [- 100, 200], A_eq = None, b_eq = None,
                maximize = False, num_vars = 3 \<rparr>, [])"
  proof -
    have o: "cli_objective decimal transportation_typed = [2, 3, 1]"
      and t: "t_obj_type transportation_typed = ''min''"
      and n: "the (decimal (t_num_vars transportation_typed)) = 3"
      by (simp_all add: cli_objective_def transportation_typed_def decimal_def)
    show ?thesis
      using input_problem_readable [OF transportation_typed_readable, of "[]"] m
      by (simp add: transportation_typed_constraints o t n ub_rows_simps ub_bounds_simps
          eq_rows_simps eq_bounds_simps array_or_None_def)
  qed
  have g: "solve_args decimal (transportation_form\<lparr>type_combos := ['' >='', ''<='']\<rparr>)
       = Inr \<lparr> c = [2, 3, 1], A_ub = Some [[2, 1, 3]], b_ub = Some [200],
               A_eq = Some [[1, 1, 1]], b_eq = Some [100],
               bounds = [(0, None), (0, None), (0, None)] \<rparr>"
    by (simp add: solve_args_def transportation_form_def blank_form_def decimal_def index_def
        upt_rec add_constraint_def array_or_None_def numeral_3_eq_3)
  show ?thesis
    using i g by (simp add: transportation_typed_def)
qed

text \<open>
  Claim C9. The solver is called with \<open>A_ub\<close> and \<open>b_ub\<close> absent exactly when the
  program has no \<^verbatim>\<open><=\<close> and no \<^verbatim>\<open>>=\<close> constraint, and with \<open>A_eq\<close> and \<open>b_eq\<close>
  absent exactly when it has no constraint of the remaining kind, which for a program
  whose operators are among the three offered means: no \<^verbatim>\<open>=\<close> constraint. On the
  command line the call is the one \<^verbatim>\<open>solve\<close> makes on the problem that
  \<^verbatim>\<open>input_problem\<close> stored.
\<close>

theorem arrays_absent_iff_kind_unused:
  "(gui_readable pf st \<longrightarrow>
      (\<exists>args. linprog_calls (snd (solve_problem pf linprog st)) = [args]
         \<and> (A_ub args = None \<longleftrightarrow>
              \<not> list_ex (\<lambda>(a, t, b). t = ''<='' \<or> t = ''>='') (gui_constraints pf st))
         \<and> (b_ub args = None \<longleftrightarrow> A_ub args = None)
         \<and> (A_eq args = None \<longleftrightarrow>
              \<not> list_ex (\<lambda>(a, t, b). t \<noteq> ''<='' \<and> t \<noteq> ''>='') (gui_constraints pf st))
         \<and> (b_eq args = None \<longleftrightarrow> A_eq args = None)
         \<and> (list_all (\<lambda>(a, t, b). t = ''<='' \<or> t = ''>='' \<or> t = ''='') (gui_constraints pf st) \<longrightarrow>
              (A_eq args = None \<longleftrightarrow> \<not> list_ex (\<lambda>(a, t, b). t = ''='') (gui_constraints pf st)))))
   \<and> (cli_readable pi pf tp \<longrightarrow>
      (\<exists>p args. input_problem pi pf (transcript tp @ rest) = Inr (p, rest)
         \<and> linprog_calls (solve linprog p) = [args]
         \<and> (A_ub args = None \<longleftrightarrow>
              \<not> list_ex (\<lambda>(a, t, b). t = ''<='' \<or> t = ''>='') (cli_constraints pf tp))
         \<and> (b_ub args = None \<longleftrightarrow> A_ub args = None)
         \<and> (A_eq args = None \<longleftrightarrow>
              \<not> list_ex (\<lambda>(a, t, b). t \<noteq> ''<='' \<and> t \<noteq> ''>='') (cli_constraints pf tp))
         \<and> (b_eq args = None \<longleftrightarrow> A_eq args = None)
         \<and> (list_all (\<lambda>(a, t, b). t = ''<='' \<or> t = ''>='' \<or> t = ''='') (cli_constraints pf tp) \<longrightarrow>
              (A_eq args = None \<longleftrightarrow> \<not> list_ex (\<lambda>(a, t, b). t = ''='') (cli_constraints pf tp)))))"
proof (intro conjI impI)
  assume r: "gui_readable pf st"
  show "\<exists>args. linprog_calls (snd (solve_problem pf linprog st)) = [args]
         \<and> (A_ub args = None \<longleftrightarrow>
              \<not> list_ex (\<lambda>(a, t, b). t = ''<='' \<or> t = ''>='') (gui_constraints pf st))
         \<and> (b_ub args = None \<longleftrightarrow> A_ub args = None)
         \<and> (A_eq args = None \<longleftrightarrow>
              \<not> list_ex (\<lambda>(a, t, b). t \<noteq> ''<='' \<and> t \<noteq> ''>='') (gui_constraints pf st))
         \<and> (b_eq args = None \<longleftrightarrow> A_eq args = None)
         \<and> (list_all (\<lambda>(a, t, b). t = ''<='' \<or> t = ''>='' \<or> t = ''='') (gui_constraints pf st) \<longrightarrow>
              (A_eq args = None \<longleftrightarrow> \<not> list_ex (\<lambda>(a, t, b). t = ''='') (gui_constraints pf st)))"
    unfolding linprog_calls_solve_problem solve_args_readable [OF r]
    using three_operators [of "gui_constraints pf st"]
    by (simp add: array_or_None_def ub_rows_empty eq_rows_empty)
next
  assume r: "cli_readable pi pf tp"
  show "\<exists>p args. input_problem pi pf (transcript tp @ rest) = Inr (p, rest)
         \<and> linprog_calls (solve linprog p) = [args]
         \<and> (A_ub args = None \<longleftrightarrow>
              \<not> list_ex (\<lambda>(a, t, b). t = ''<='' \<or> t = ''>='') (cli_constraints pf tp))
         \<and> (b_ub args = None \<longleftrightarrow> A_ub args = None)
         \<and> (A_eq args = None \<longleftrightarrow>
              \<not> list_ex (\<lambda>(a, t, b). t \<noteq> ''<='' \<and> t \<noteq> ''>='') (cli_constraints pf tp))
         \<and> (b_eq args = None \<longleftrightarrow> A_eq args = None)
         \<and> (list_all (\<lambda>(a, t, b). t = ''<='' \<or> t = ''>='' \<or> t = ''='') (cli_constraints pf tp) \<longrightarrow>
              (A_eq args = None \<longleftrightarrow> \<not> list_ex (\<lambda>(a, t, b). t = ''='') (cli_constraints pf tp)))"
    unfolding linprog_calls_solve input_problem_readable [OF r]
    using three_operators [of "cli_constraints pf tp"]
    by (simp add: array_or_None_def ub_rows_empty eq_rows_empty)
qed


theorem arrays_absent_iff_kind_unused_witness:
  "gui_readable decimal transportation_form
   \<and> list_all (\<lambda>(a, t, b). t = ''<='' \<or> t = ''>='' \<or> t = ''='')
        (gui_constraints decimal transportation_form)
   \<and> (\<exists>args. linprog_calls (snd (solve_problem decimal optimal_solver transportation_form)) = [args]
         \<and> A_ub args \<noteq> None \<and> b_ub args \<noteq> None \<and> A_eq args = None \<and> b_eq args = None)
   \<and> cli_readable decimal decimal mixed_typed
   \<and> (\<exists>p args. input_problem decimal decimal (transcript mixed_typed @ []) = Inr (p, [])
         \<and> linprog_calls (solve optimal_solver p) = [args]
         \<and> A_ub args \<noteq> None \<and> b_ub args \<noteq> None \<and> A_eq args \<noteq> None \<and> b_eq args \<noteq> None)"
  using arrays_absent_iff_kind_unused [of decimal transportation_form optimal_solver
      decimal mixed_typed "[]"]
    transportation_form_readable mixed_typed_readable
  by (auto simp: transportation_form_constraints mixed_typed_constraints)

section \<open>Reporting the result\<close>

text \<open>
  Claim C6. For a successful result, the report shows the variable assignment as the
  solver returned it, and as objective value the raw minimised value negated when the
  sense was to maximise and the raw value itself otherwise: the numbers of the report
  are that value followed by the assignment. (The worked example has the raw value
  \<open>- 410\<close> under a maximisation and shows \<open>410\<close>.)
\<close>

theorem reported_objective_value:
  "success r \<and> result_fun r = Some v \<and> result_x r = Some xs \<longrightarrow>
     (case gui_display_results st r of
        (st', e) \<Rightarrow>
          e = None
          \<and> optimal_value_label st'
              = [Str ''Optimal Value: '', Float6 (if objective_type st = ''maximize'' then - v else v)]
          \<and> line_floats (results_text st')
              = (if objective_type st = ''maximize'' then - v else v) # xs)
     \<and> (case cli_display_results p r of
          (out, e) \<Rightarrow>
            e = None
            \<and> Print [Str nl, Str (if maximize p then ''Maximum'' else ''Minimum''),
                      Str '' Value: '', Float6 (if maximize p then - v else v)] \<in> set out
            \<and> printed_floats out = (if maximize p then - v else v) # xs)"
  by (simp add: gui_display_results_def cli_display_results_def Let_def
      line_floats_simps line_floats_append line_floats_solution
      printed_floats_simps printed_floats_append printed_floats_solution)

theorem reported_objective_value_witness:
  "success optimal_result \<and> result_fun optimal_result = Some (- 410)
   \<and> result_x optimal_result = Some [90, 70]
   \<and> optimal_value_label (fst (gui_display_results mixed_form optimal_result))
       = [Str ''Optimal Value: '', Float6 410]
   \<and> line_floats (results_text (fst (gui_display_results mixed_form optimal_result)))
       = [410, 90, 70]
   \<and> printed_floats (fst (cli_display_results
         \<lparr>c = [- 3, - 2], A_ub = Some [[1, 1]], b_ub = Some [200], A_eq = None, b_eq = None,
          maximize = True, num_vars = 2\<rparr> optimal_result))
       = [410, 90, 70]"
  using reported_objective_value [of optimal_result "- 410" "[90, 70]" mixed_form
      "\<lparr>c = [- 3, - 2], A_ub = Some [[1, 1]], b_ub = Some [200], A_eq = None, b_eq = None,
        maximize = True, num_vars = 2\<rparr>"]
  by (simp add: optimal_result_def mixed_form_def blank_form_def split: prod.splits)

text \<open>
  Claim C7. For an unsuccessful result, the report carries the solver's message as it
  is and shows no number at all: no objective value, no assignment, and in particular
  no zero in place of the missing value. The form's value label reads
  \<^verbatim>\<open>Optimal Value: No solution\<close>.
\<close>

theorem failure_shows_no_value:
  "\<not> success r \<longrightarrow>
     (case gui_display_results st r of
        (st', e) \<Rightarrow>
          e = None
          \<and> line_floats (results_text st') = []
          \<and> optimal_value_label st' = [Str ''Optimal Value: No solution'']
          \<and> line_floats (optimal_value_label st') = []
          \<and> status_label st' = [Str ''Status: '', Str (message r)]
          \<and> Str (message r) \<in> set (results_text st'))
     \<and> (case cli_display_results p r of
          (out, e) \<Rightarrow>
            e = None
            \<and> printed_floats out = []
            \<and> Print [Str ''Status: '', Str (message r)] \<in> set out)"
  by (simp add: gui_display_results_def cli_display_results_def Let_def
      line_floats_simps line_floats_append printed_floats_simps printed_floats_append)

theorem failure_shows_no_value_witness:
  "\<not> success infeasible_result
   \<and> line_floats (results_text (fst (gui_display_results mixed_form infeasible_result))) = []
   \<and> optimal_value_label (fst (gui_display_results mixed_form infeasible_result))
       = [Str ''Optimal Value: No solution'']
   \<and> status_label (fst (gui_display_results mixed_form infeasible_result))
       = [Str ''Status: '',
          Str ''The problem is infeasible. (HiGHS Status 8: model_status is Infeasible)'']
   \<and> printed_floats (fst (cli_display_results
         \<lparr>c = [- 3, - 2], A_ub = Some [[1, 1]], b_ub = Some [200], A_eq = None, b_eq = None,
          maximize = True, num_vars = 2\<rparr> infeasible_result)) = []"
  using failure_shows_no_value [of infeasible_result mixed_form
      "\<lparr>c = [- 3, - 2], A_ub = Some [[1, 1]], b_ub = Some [200], A_eq = None, b_eq = None,
        maximize = True, num_vars = 2\<rparr>"]
  by (simp add: infeasible_result_def split: prod.splits)

section \<open>Saving and loading\<close>

text \<open>
  Claim C2, as amended. Saving a form whose widgets are as many as its spin boxes say,
  into a directory that holds no saved problem under another name, and loading
  afterwards, gives back the same number of variables and of constraints, the same
  sense, the same objective coefficients and the same constraints (coefficients,
  operator, bound) in the same order, whatever the form held before the load. The
  command line saves the dictionary it stores, and loading the file it has just written
  gives that dictionary back.
\<close>

theorem saved_problem_loads_back:
  "(gui_consistent st \<and> list_all (\<lambda>(f, x). saved_name f \<longrightarrow> f = save_filename st) dir \<longrightarrow>
      gui_load_problem (fst (gui_save_problem st dir)) st0
      = (st0\<lparr>num_variables := num_variables st,
             num_constraints := num_constraints st,
             objective_type := objective_type st,
             obj_entries := obj_entries st,
             constraint_entries := constraint_entries st,
             type_combos := type_combos st,
             bound_entries := bound_entries st\<rparr>,
         [Showinfo [Str ''Problem loaded from '', Str (save_filename st)]]))
   \<and> (rectangular (A_ub p) \<and> rectangular (A_eq p) \<longrightarrow>
      cli_load_problem (fst (cli_save_problem p filename cdir)) filename cst
      = (Some p, [Print [Str ''Problem loaded from '', Str filename]]))"
proof (intro conjI impI)
  assume a: "gui_consistent st \<and> list_all (\<lambda>(f, x). saved_name f \<longrightarrow> f = save_filename st) dir"
  let ?m = "nat (num_constraints st)"
  let ?cs = "map (\<lambda>i. \<lparr>coeffs = constraint_entries st ! i,
             ctype = type_combos st ! i, bound = bound_entries st ! i\<rparr>) [0 ..< ?m]"
  let ?pd = "\<lparr>d_num_variables = num_variables st, d_num_constraints = num_constraints st,
         d_objective_type = objective_type st, d_objective_coeffs = obj_entries st,
         d_constraints = ?cs\<rparr>"
  from a have len: "length (obj_entries st) = nat (num_variables st)"
    "length (constraint_entries st) = ?m" "length (type_combos st) = ?m"
    "length (bound_entries st) = ?m"
    and rows: "\<forall>row\<in>set (constraint_entries st). length row = nat (num_variables st)"
    by (simp_all add: gui_consistent_def list_all_iff)
  from a obtain others where
    first: "filter (\<lambda>(g, x). saved_name g) (write_file (save_filename st) ?pd dir)
            = (save_filename st, Document ?pd) # others"
    using filter_write_file [OF saved_name_save_filename, of st dir ?pd] by blast
  have p2: "length (d_objective_coeffs ?pd) = nat (d_num_variables ?pd)"
    and p3: "length (d_constraints ?pd) = nat (d_num_constraints ?pd)"
    using len by simp_all
  have p4: "\<forall>cd\<in>set (d_constraints ?pd). length (coeffs cd) = nat (d_num_variables ?pd)"
    using rows len by auto
  have m1: "map coeffs ?cs = constraint_entries st"
    and m2: "map ctype ?cs = type_combos st"
    and m3: "map bound ?cs = bound_entries st"
    using len by (simp_all add: comp_def map_nth_all)
  from a have save: "fst (gui_save_problem st dir) = write_file (save_filename st) ?pd dir"
    by (simp add: gui_save_problem_consistent)
  show "gui_load_problem (fst (gui_save_problem st dir)) st0
      = (st0\<lparr>num_variables := num_variables st,
             num_constraints := num_constraints st,
             objective_type := objective_type st,
             obj_entries := obj_entries st,
             constraint_entries := constraint_entries st,
             type_combos := type_combos st,
             bound_entries := bound_entries st\<rparr>,
         [Showinfo [Str ''Problem loaded from '', Str (save_filename st)]])"
    unfolding save load_consistent_document [OF first p2 p3 p4]
    by (simp add: m1 m2 m3 del: map_map)
next
  assume "rectangular (A_ub p) \<and> rectangular (A_eq p)"
  then show "cli_load_problem (fst (cli_save_problem p filename cdir)) filename cst
      = (Some p, [Print [Str ''Problem loaded from '', Str filename]])"
    by (simp add: cli_load_problem_def cli_save_problem_def map_of_write_file np_array_rectangular)
qed

theorem saved_problem_loads_back_witness:
  "gui_consistent transportation_form
   \<and> list_all (\<lambda>(f, x). saved_name f \<longrightarrow> f = save_filename transportation_form)
        [(''notes.txt'', Malformed)]
   \<and> gui_load_problem (fst (gui_save_problem transportation_form [(''notes.txt'', Malformed)]))
        blank_form
       = (transportation_form,
          [Showinfo [Str ''Problem loaded from '', Str ''lp_problem_3vars_2cons.json'']])
   \<and> rectangular (A_ub production_problem) \<and> rectangular (A_eq production_problem)
   \<and> cli_load_problem (fst (cli_save_problem production_problem ''production.json'' []))
        ''production.json'' None
       = (Some production_problem, [Print [Str ''Problem loaded from '', Str ''production.json'']])"
proof -
  have g: "gui_consistent transportation_form"
    by (simp add: gui_consistent_def transportation_form_def blank_form_def)
  have d: "list_all (\<lambda>(f, x). saved_name f \<longrightarrow> f = save_filename transportation_form)
        [(''notes.txt'', Malformed)]"
    by (simp add: saved_name_examples)
  have r: "rectangular (A_ub production_problem)" "rectangular (A_eq production_problem)"
    by (simp_all add: rectangular_def production_problem_def)
  have n: "save_filename transportation_form = ''lp_problem_3vars_2cons.json''"
    by (simp add: save_filename_def transportation_form_def blank_form_def str_int_small)
  have e: "blank_form\<lparr>num_variables := num_variables transportation_form,
             num_constraints := num_constraints transportation_form,
             objective_type := objective_type transportation_form,
             obj_entries := obj_entries transportation_form,
             constraint_entries := constraint_entries transportation_form,
             type_combos := type_combos transportation_form,
             bound_entries := bound_entries transportation_form\<rparr> = transportation_form"
    by (simp add: transportation_form_def blank_form_def)
  show ?thesis
    using saved_problem_loads_back [of transportation_form "[(''notes.txt'', Malformed)]"
        blank_form production_problem "''production.json''" "[]" None] g d r
    by (simp add: n e)
qed

text \<open>
  Claim C2 as stated fails, because \<^verbatim>\<open>load_problem\<close> does not open the file that was
  saved but the first saved problem of the directory listing. With two saved problems
  in the directory, saving one of them again and loading gives the other; in whichever
  order the listing has the two files, this happens for one of the two forms. And a form
  whose spin box was typed over is not given back even from an empty directory: the
  load stops at the second objective coefficient.
\<close>

theorem saved_problem_not_loaded_back:
  "gui_consistent blank_form \<and> gui_consistent small_form
   \<and> num_variables blank_form = 2 \<and> num_variables small_form = 1
   \<and> fst (gui_load_problem (fst (gui_save_problem blank_form two_saved_problems)) blank_form)
       = small_form
   \<and> fst (gui_load_problem (fst (gui_save_problem small_form (rev two_saved_problems))) small_form)
       = blank_form
   \<and> gui_load_problem (fst (gui_save_problem stale_form [])) stale_form
       = (stale_form\<lparr>obj_entries := [''1''], constraint_entries := [[''1''], [''1'']]\<rparr>,
          [Showerror [Str ''Error loading problem: '', Exc IndexError]])"
  by (simp add: gui_consistent_def gui_load_problem_def gui_save_problem_def blank_form_def
      small_form_def stale_form_def two_saved_problems_def save_filename_def str_int_small
      saved_name_examples write_file_def index_def upt_rec update_problem_size_def
      numeral_2_eq_2)

text \<open>
  Claim C8, as amended. A file that fails to parse is rejected with an error message,
  and the problem state stays as it was, in both front ends. On the command line no
  load that ends in an error message changes the stored problem.
\<close>

theorem unparseable_file_rejected:
  "(filter (\<lambda>(f, x). saved_name f) dir = (f, Malformed) # others \<longrightarrow>
      gui_load_problem dir st
      = (st, [Showerror [Str ''Error loading problem: '', Exc JSONDecodeError]]))
   \<and> (map_of cdir filename = Some Malformed \<longrightarrow>
      cli_load_problem cdir filename cst
      = (cst, [Print [Str ''Error loading problem: '', Exc JSONDecodeError]]))
   \<and> (snd (cli_load_problem cdir filename cst) \<noteq> [Print [Str ''Problem loaded from '', Str filename]] \<longrightarrow>
      fst (cli_load_problem cdir filename cst) = cst)"
  by (simp add: gui_load_problem_def cli_load_problem_def split: option.splits content.splits sum.splits)

theorem unparseable_file_rejected_witness:
  "filter (\<lambda>(f, x). saved_name f)
       ((''notes.txt'', Malformed) # (''lp_problem_2vars_2cons.json'', Malformed) # two_saved_problems)
     = (''lp_problem_2vars_2cons.json'', Malformed) # two_saved_problems
   \<and> gui_load_problem
       ((''notes.txt'', Malformed) # (''lp_problem_2vars_2cons.json'', Malformed) # two_saved_problems)
       transportation_form
     = (transportation_form, [Showerror [Str ''Error loading problem: '', Exc JSONDecodeError]])
   \<and> map_of [(''broken.json'', Malformed)] ''broken.json'' = Some Malformed
   \<and> cli_load_problem [(''broken.json'', Malformed)] ''broken.json'' (Some production_problem)
     = (Some production_problem, [Print [Str ''Error loading problem: '', Exc JSONDecodeError]])
   \<and> snd (cli_load_problem [(''ragged.json'',
              Document (production_problem\<lparr>A_ub := Some [[2, 1], [1]]\<rparr>))]
            ''ragged.json'' (Some production_problem))
       \<noteq> [Print [Str ''Problem loaded from '', Str ''ragged.json'']]
   \<and> fst (cli_load_problem [(''ragged.json'',
              Document (production_problem\<lparr>A_ub := Some [[2, 1], [1]]\<rparr>))]
            ''ragged.json'' (Some production_problem))
       = Some production_problem"
proof -
  have f: "filter (\<lambda>(f, x). saved_name f)
       ((''notes.txt'', Malformed) # (''lp_problem_2vars_2cons.json'', Malformed) # two_saved_problems)
     = (''lp_problem_2vars_2cons.json'', Malformed) # two_saved_problems"
    by (simp add: two_saved_problems_def saved_name_examples)
  have m: "map_of [(''broken.json'', Malformed)] ''broken.json'' = Some Malformed"
    by simp
  have r: "snd (cli_load_problem [(''ragged.json'',
              Document (production_problem\<lparr>A_ub := Some [[2, 1], [1]]\<rparr>))]
            ''ragged.json'' (Some production_problem))
       \<noteq> [Print [Str ''Problem loaded from '', Str ''ragged.json'']]"
    by (simp add: cli_load_problem_def load_array_def np_array_def production_problem_def)
  show ?thesis
    using unparseable_file_rejected [of
        "(''notes.txt'', Malformed) # (''lp_problem_2vars_2cons.json'', Malformed) # two_saved_problems"
        "''lp_problem_2vars_2cons.json''" two_saved_problems transportation_form
        "[(''broken.json'', Malformed)]" "''broken.json''" "Some production_problem"]
      unparseable_file_rejected [of "[]" "[]" "[]" blank_form
        "[(''ragged.json'', Document (production_problem\<lparr>A_ub := Some [[2, 1], [1]]\<rparr>))]"
        "''ragged.json''" "Some production_problem"]
      f m r
    by simp
qed

text \<open>
  Claim C8 as stated fails for files whose dimensions are inconsistent: neither front end
  compares them. The form takes over the counts of a file that announces one variable
  and carries two coefficients, rebuilds its widgets, writes the first coefficient, and
  only then stops with an error; the command line stores a problem with two objective
  coefficients and a row of three without complaint.
\<close>

theorem inconsistent_file_loaded:
  "gui_load_problem inconsistent_file blank_form
     = (blank_form\<lparr>num_variables := 1, num_constraints := 0, objective_type := ''minimize'',
          obj_entries := [''5''], constraint_entries := [], type_combos := [],
          bound_entries := []\<rparr>,
        [Showerror [Str ''Error loading problem: '', Exc IndexError]])
   \<and> obj_entries blank_form = [''1'', ''1'']
   \<and> length (c mismatched_problem) = 2
   \<and> rows_of (A_ub mismatched_problem) = [[1, 1, 1]]
   \<and> cli_load_problem [(''mismatch.json'', Document mismatched_problem)] ''mismatch.json'' None
     = (Some mismatched_problem, [Print [Str ''Problem loaded from '', Str ''mismatch.json'']])"
  by (simp add: gui_load_problem_def inconsistent_file_def blank_form_def saved_name_examples
      update_problem_size_def cli_load_problem_def mismatched_problem_def load_array_def
      np_array_def rows_of_def)

section \<open>Shapes\<close>

text \<open>
  Claim C1, as amended. Neither front end compares lengths, and there is no error of its
  own for a mismatch. \<^verbatim>\<open>solve\<close> of the command line calls the solver for every stored
  problem, with the five arrays exactly as stored, neither padded nor truncated, and one
  bound for each of \<^verbatim>\<open>num_vars\<close>; \<^verbatim>\<open>solve_problem\<close> of the form calls it whenever the
  widgets it reads hold numbers, with a \<open>c\<close> as long as the list of objective entries
  and rows as long as the spin box says. If the solver raises, for a mismatch or for
  anything else, the run ends with the message \<^verbatim>\<open>Error solving problem: ...\<close> and the
  form is left as it was. A problem typed at the prompts of \<^verbatim>\<open>input_problem\<close> is
  never mismatched: \<open>c\<close> and every row have \<^verbatim>\<open>num_vars\<close> entries.
\<close>

theorem no_shape_check_before_solver:
  "linprog_calls (solve linprog p)
     = [\<lparr> c = c p, A_ub = A_ub p, b_ub = b_ub p, A_eq = A_eq p, b_eq = b_eq p,
          bounds = replicate (nat (num_vars p)) (0, None) \<rparr>]
   \<and> (linprog \<lparr> c = c p, A_ub = A_ub p, b_ub = b_ub p, A_eq = A_eq p, b_eq = b_eq p,
                 bounds = replicate (nat (num_vars p)) (0, None) \<rparr> = Inl ex \<longrightarrow>
        solve linprog p
        = [Print [Str (nl @ banner)], Print [Str ''SOLVING...''], Print [Str banner],
           Linprog \<lparr> c = c p, A_ub = A_ub p, b_ub = b_ub p, A_eq = A_eq p, b_eq = b_eq p,
                     bounds = replicate (nat (num_vars p)) (0, None) \<rparr>,
           Print [Str ''Error solving problem: '', Exc ex]])
   \<and> (gui_readable pf st \<longrightarrow>
        (\<exists>args. linprog_calls (snd (solve_problem pf glinprog st)) = [args]
           \<and> length (c args) = length (obj_entries st)
           \<and> list_all (\<lambda>row. length row = nat (num_variables st))
                (rows_of (A_ub args) @ rows_of (A_eq args))
           \<and> (glinprog args = Inl ex' \<longrightarrow>
                solve_problem pf glinprog st
                = (st, [Linprog args, Showerror [Str ''Error solving problem: '', Exc ex']]))))
   \<and> (input_problem pi pf stdin = Inr (p', rest) \<longrightarrow>
        length (c p') = nat (num_vars p')
        \<and> list_all (\<lambda>row. length row = nat (num_vars p')) (rows_of (A_ub p') @ rows_of (A_eq p')))"
proof (intro conjI impI)
  show "linprog_calls (solve linprog p)
     = [\<lparr> c = c p, A_ub = A_ub p, b_ub = b_ub p, A_eq = A_eq p, b_eq = b_eq p,
          bounds = replicate (nat (num_vars p)) (0, None) \<rparr>]"
    by (rule linprog_calls_solve)
next
  assume "linprog \<lparr> c = c p, A_ub = A_ub p, b_ub = b_ub p, A_eq = A_eq p, b_eq = b_eq p,
                 bounds = replicate (nat (num_vars p)) (0, None) \<rparr> = Inl ex"
  then show "solve linprog p
        = [Print [Str (nl @ banner)], Print [Str ''SOLVING...''], Print [Str banner],
           Linprog \<lparr> c = c p, A_ub = A_ub p, b_ub = b_ub p, A_eq = A_eq p, b_eq = b_eq p,
                     bounds = replicate (nat (num_vars p)) (0, None) \<rparr>,
           Print [Str ''Error solving problem: '', Exc ex]]"
    by (simp add: solve_def)
next
  assume r: "gui_readable pf st"
  show "\<exists>args. linprog_calls (snd (solve_problem pf glinprog st)) = [args]
           \<and> length (c args) = length (obj_entries st)
           \<and> list_all (\<lambda>row. length row = nat (num_variables st))
                (rows_of (A_ub args) @ rows_of (A_eq args))
           \<and> (glinprog args = Inl ex' \<longrightarrow>
                solve_problem pf glinprog st
                = (st, [Linprog args, Showerror [Str ''Error solving problem: '', Exc ex']]))"
    unfolding linprog_calls_solve_problem
    using gui_rows_length [OF r]
    by (simp add: solve_args_readable [OF r] solve_problem_def rows_of_array_or_None
        gui_objective_def)
next
  assume a: "input_problem pi pf stdin = Inr (p', rest)"
  from input_problem_shape [OF a] show "length (c p') = nat (num_vars p')"
    by simp
next
  assume a: "input_problem pi pf stdin = Inr (p', rest)"
  from input_problem_shape [OF a]
  show "list_all (\<lambda>row. length row = nat (num_vars p')) (rows_of (A_ub p') @ rows_of (A_eq p'))"
    by simp
qed

theorem no_shape_check_before_solver_witness:
  "linprog_calls (solve rejecting_solver mismatched_problem)
     = [\<lparr> c = [3, 2], A_ub = Some [[1, 1, 1]], b_ub = Some [10], A_eq = None, b_eq = None,
          bounds = [(0, None), (0, None)] \<rparr>]
   \<and> rejecting_solver \<lparr> c = [3, 2], A_ub = Some [[1, 1, 1]], b_ub = Some [10], A_eq = None,
          b_eq = None, bounds = [(0, None), (0, None)] \<rparr> = Inl ValueError
   \<and> solve rejecting_solver mismatched_problem
        = [Print [Str (nl @ banner)], Print [Str ''SOLVING...''], Print [Str banner],
           Linprog \<lparr> c = [3, 2], A_ub = Some [[1, 1, 1]], b_ub = Some [10], A_eq = None,
                     b_eq = None, bounds = [(0, None), (0, None)] \<rparr>,
           Print [Str ''Error solving problem: '', Exc ValueError]]
   \<and> gui_readable decimal stale_form
   \<and> (\<exists>args. linprog_calls (snd (solve_problem decimal rejecting_solver stale_form)) = [args]
         \<and> length (c args) = 2
         \<and> list_all (\<lambda>row. length row = 1) (rows_of (A_ub args) @ rows_of (A_eq args))
         \<and> solve_problem decimal rejecting_solver stale_form
           = (stale_form, [Linprog args, Showerror [Str ''Error solving problem: '', Exc ValueError]]))
   \<and> input_problem decimal decimal (transcript production_typed @ []) = Inr (production_problem, [])
   \<and> length (c production_problem) = 2
   \<and> list_all (\<lambda>row. length row = 2)
        (rows_of (A_ub production_problem) @ rows_of (A_eq production_problem))"
proof -
  have m: "c mismatched_problem = [3, 2]" "A_ub mismatched_problem = Some [[1, 1, 1]]"
    "b_ub mismatched_problem = Some [10]" "A_eq mismatched_problem = None"
    "b_eq mismatched_problem = None" "num_vars mismatched_problem = 2"
    by (simp_all add: mismatched_problem_def)
  have s: "num_variables stale_form = 1" "obj_entries stale_form = [''1'', ''1'']"
    by (simp_all add: stale_form_def blank_form_def)
  have n: "num_vars production_problem = 2"
    by (simp add: production_problem_def)
  show ?thesis
    using no_shape_check_before_solver [of rejecting_solver mismatched_problem ValueError
        decimal stale_form rejecting_solver ValueError decimal
        "transcript production_typed @ []" production_problem "[]"]
      stale_form_readable production_typed_input
    by (simp add: m s n rejecting_solver_def numeral_2_eq_2)
qed

text \<open>
  Claim C1 as stated fails: the solver call is reached with mismatched dimensions. The
  command line, holding a problem with two objective coefficients and a constraint row
  of three (as a loaded file can leave it), calls the solver with just that; the form,
  after the number of variables was typed over with 1, calls it with two objective
  coefficients and rows of one. The only error is the one the solver raises.
\<close>

theorem mismatched_shapes_reach_solver:
  "length (c mismatched_problem) = 2
   \<and> rows_of (A_ub mismatched_problem) = [[1, 1, 1]]
   \<and> solve rejecting_solver mismatched_problem
        = [Print [Str (nl @ banner)], Print [Str ''SOLVING...''], Print [Str banner],
           Linprog \<lparr> c = [3, 2], A_ub = Some [[1, 1, 1]], b_ub = Some [10], A_eq = None,
                     b_eq = None, bounds = [(0, None), (0, None)] \<rparr>,
           Print [Str ''Error solving problem: '', Exc ValueError]]
   \<and> length (obj_entries stale_form) = 2
   \<and> solve_problem decimal rejecting_solver stale_form
        = (stale_form,
           [Linprog \<lparr> c = [- 1, - 1], A_ub = Some [[1], [1]], b_ub = Some [0, 0], A_eq = None,
                      b_eq = None, bounds = [(0, None), (0, None)] \<rparr>,
            Showerror [Str ''Error solving problem: '', Exc ValueError]])"
  by (simp add: mismatched_problem_def rows_of_def solve_def rejecting_solver_def numeral_2_eq_2
      solve_problem_def solve_args_def stale_form_def blank_form_def decimal_def index_def
      upt_rec add_constraint_def array_or_None_def)

end
